theory Spec2Isabelle
  imports Complex_Main "HOL-Library.AList" "HOL-Library.Multiset" "HOL-Library.Sublist"
begin

section \<open>Platform values\<close>

text \<open>
  A JavaScript \<^verbatim>\<open>number\<close> is modelled as a real: instants, durations and byte sizes are
  finite, and sums and quotients are taken exactly (no rounding, no NaN, no infinity).
  An optional field (\<^verbatim>\<open>x?: T\<close>, \<^verbatim>\<open>T | null\<close>, \<^verbatim>\<open>T | undefined\<close>) is an \<open>option\<close>.
  A \<^verbatim>\<open>Map\<close> is an association list in insertion order: \<open>AList.update\<close> overwrites the
  value of a key that is present, where it stands, and appends a new key at the end, as
  \<^verbatim>\<open>Map.prototype.set\<close> does.
\<close>

text \<open>\<^verbatim>\<open>x || d\<close> on an optional number: \<^verbatim>\<open>undefined\<close> and \<^verbatim>\<open>0\<close> are falsy.\<close>

definition num_or :: "real option \<Rightarrow> real \<Rightarrow> real" where
  "num_or x d = (case x of None \<Rightarrow> d | Some v \<Rightarrow> if v = 0 then d else v)"

text \<open>\<^verbatim>\<open>x || d\<close> on an optional string: \<^verbatim>\<open>undefined\<close> and the empty string are falsy.\<close>

definition str_or :: "string option \<Rightarrow> string \<Rightarrow> string" where
  "str_or x d = (case x of None \<Rightarrow> d | Some v \<Rightarrow> if v = [] then d else v)"

text \<open>Truthiness of an optional boolean (\<^verbatim>\<open>blockedLCP?: boolean\<close>) and of an optional number.\<close>

definition truthy :: "bool option \<Rightarrow> bool" where
  "truthy b = (b = Some True)"

definition truthy_num :: "real option \<Rightarrow> bool" where
  "truthy_num x = (case x of None \<Rightarrow> False | Some v \<Rightarrow> v \<noteq> 0)"

text \<open>
  \<^verbatim>\<open>Array.prototype.sort(cmp)\<close>: the language standard requires a stable sort, and with a
  consistent comparator its result is unique. It is written here as an insertion sort that
  puts an element before the first one it does not compare greater than, the elements
  being inserted from the last to the first.
\<close>

fun js_insert :: "('a \<Rightarrow> 'a \<Rightarrow> real) \<Rightarrow> 'a \<Rightarrow> 'a list \<Rightarrow> 'a list" where
  "js_insert cmp x [] = [x]"
| "js_insert cmp x (y # ys) = (if cmp x y \<le> 0 then x # y # ys else y # js_insert cmp x ys)"

definition js_sort :: "('a \<Rightarrow> 'a \<Rightarrow> real) \<Rightarrow> 'a list \<Rightarrow> 'a list" where
  "js_sort cmp xs = foldr (js_insert cmp) xs []"

text \<open>
  \<^verbatim>\<open>xs.slice(0, count)\<close> for an integral end: a negative end counts from the end of
  the array.
\<close>

definition js_slice0 :: "'a list \<Rightarrow> int \<Rightarrow> 'a list" where
  "js_slice0 xs k =
     (if k < 0 then take (nat (int (length xs) + k)) xs else take (nat k) xs)"

text \<open>\<^verbatim>\<open>xs.reduce((sum, x) => sum + f(x), 0)\<close>.\<close>

definition reduce_sum :: "('a \<Rightarrow> 'b::monoid_add) \<Rightarrow> 'a list \<Rightarrow> 'b" where
  "reduce_sum f xs = foldl (\<lambda>sum x. sum + f x) 0 xs"

section \<open>APICorrelationMonitor\<close>

text \<open>
  \<^verbatim>\<open>APICallMetric\<close> without its two flags and \<^verbatim>\<open>associatedMetricId\<close> is what
  \<^verbatim>\<open>recordAPICall\<close> receives; the stored record extends it. Field names carry the prefix
  \<open>c_\<close>, since several record types of the repository share the names \<^verbatim>\<open>startTime\<close>,
  \<^verbatim>\<open>duration\<close> and \<^verbatim>\<open>url\<close>. Likewise the methods and fields that this class and
  \<^verbatim>\<open>TanStackQueryMonitor\<close> both have (\<^verbatim>\<open>lcpTime\<close>, \<^verbatim>\<open>inpEvents\<close>, \<^verbatim>\<open>setLCPTime\<close>,
  \<^verbatim>\<open>recordINPEvent\<close>, the two checks, the two correlation passes, \<^verbatim>\<open>clear\<close>) carry the
  prefix \<open>api_\<close> here and \<open>query_\<close> or \<open>qm_\<close> there.
\<close>

record call_data =
  c_url :: string
  c_method :: string
  c_startTime :: real
  c_duration :: real
  c_ttfb :: real
  c_status :: real
  c_size :: real

record api_call = call_data +
  c_blockedLCP :: "bool option"
  c_blockedINP :: "bool option"
  c_associatedMetricId :: "string option"

record pending_request =
  p_url :: string
  p_method :: string
  p_startTime :: real

text \<open>
  The monitor's state. The list of observers (\<^verbatim>\<open>callbacks\<close>) is left out: an observer is
  handed each new record after it is stored and its return value is discarded.
\<close>

record api_monitor =
  apiCalls :: "api_call list"
  pendingRequests :: "(string \<times> pending_request) list"
  api_initialized :: bool
  api_lcpTime :: "real option"
  api_inpEvents :: "(real \<times> bool) list"

definition api_new :: api_monitor where
  "api_new = \<lparr>apiCalls = [], pendingRequests = [], api_initialized = False,
              api_lcpTime = None, api_inpEvents = []\<rparr>"

definition api_checkLCPBlocking :: "api_monitor \<Rightarrow> real \<Rightarrow> real \<Rightarrow> bool" where
  "api_checkLCPBlocking m startTime duration =
     (case api_lcpTime m of
        None \<Rightarrow> False
      | Some lcp \<Rightarrow> (let endTime = startTime + duration in startTime < lcp \<and> endTime > lcp))"

text \<open>The loop over the entries of \<^verbatim>\<open>inpEvents\<close>, returning at the first overlap.\<close>

fun inp_overlap :: "(real \<times> bool) list \<Rightarrow> real \<Rightarrow> real \<Rightarrow> bool" where
  "inp_overlap [] startTime endTime = False"
| "inp_overlap ((inpTime, v) # rest) startTime endTime =
     (if startTime < inpTime \<and> endTime > inpTime then True
      else inp_overlap rest startTime endTime)"

definition api_checkINPBlocking :: "api_monitor \<Rightarrow> real \<Rightarrow> real \<Rightarrow> bool" where
  "api_checkINPBlocking m startTime duration =
     (let endTime = startTime + duration in inp_overlap (api_inpEvents m) startTime endTime)"

definition api_correlateWithLCP :: "api_monitor \<Rightarrow> api_monitor" where
  "api_correlateWithLCP m =
     (case api_lcpTime m of
        None \<Rightarrow> m
      | Some lcp \<Rightarrow>
          m\<lparr>apiCalls :=
              map (\<lambda>call. if \<not> truthy (c_blockedLCP call)
                          then call\<lparr>c_blockedLCP :=
                                 Some (api_checkLCPBlocking m (c_startTime call) (c_duration call))\<rparr>
                          else call)
                  (apiCalls m)\<rparr>)"

definition api_correlateWithINP :: "api_monitor \<Rightarrow> api_monitor" where
  "api_correlateWithINP m =
     m\<lparr>apiCalls :=
         map (\<lambda>call. if \<not> truthy (c_blockedINP call)
                     then call\<lparr>c_blockedINP :=
                            Some (api_checkINPBlocking m (c_startTime call) (c_duration call))\<rparr>
                     else call)
             (apiCalls m)\<rparr>"

definition api_setLCPTime :: "real \<Rightarrow> api_monitor \<Rightarrow> api_monitor" where
  "api_setLCPTime time m = api_correlateWithLCP (m\<lparr>api_lcpTime := Some time\<rparr>)"

definition api_recordINPEvent :: "real \<Rightarrow> api_monitor \<Rightarrow> api_monitor" where
  "api_recordINPEvent time m =
     api_correlateWithINP (m\<lparr>api_inpEvents := AList.update time True (api_inpEvents m)\<rparr>)"

definition recordAPICall :: "call_data \<Rightarrow> api_monitor \<Rightarrow> api_monitor" where
  "recordAPICall callData m =
     (let metric = call_data.extend callData
            (api_call.fields
               (Some (api_checkLCPBlocking m (c_startTime callData) (c_duration callData)))
               (Some (api_checkINPBlocking m (c_startTime callData) (c_duration callData)))
               None)
      in m\<lparr>apiCalls := apiCalls m @ [metric]\<rparr>)"

text \<open>
  The fetch interception: the wrapper enters the request in \<^verbatim>\<open>pendingRequests\<close> when it is
  issued, and records the call and removes the entry when the promise settles. The request
  id, the clock readings, the status and the body size are inputs.
\<close>

definition fetch_issued :: "string \<Rightarrow> string \<Rightarrow> string \<Rightarrow> real \<Rightarrow> api_monitor \<Rightarrow> api_monitor" where
  "fetch_issued requestId url method startTime m =
     m\<lparr>pendingRequests :=
         AList.update requestId \<lparr>p_url = url, p_method = method, p_startTime = startTime\<rparr>
           (pendingRequests m)\<rparr>"

definition fetch_settled ::
  "string \<Rightarrow> string \<Rightarrow> string \<Rightarrow> real \<Rightarrow> real \<Rightarrow> real \<Rightarrow> real \<Rightarrow> api_monitor \<Rightarrow> api_monitor" where
  "fetch_settled requestId url method startTime endTime status sz m =
     (let m' = recordAPICall
                 \<lparr>c_url = url, c_method = method, c_startTime = startTime,
                  c_duration = endTime - startTime, c_ttfb = endTime - startTime,
                  c_status = status, c_size = sz\<rparr> m
      in m'\<lparr>pendingRequests := AList.delete requestId (pendingRequests m')\<rparr>)"

definition getAPICalls :: "api_monitor \<Rightarrow> api_call list" where
  "getAPICalls m = apiCalls m"

definition getLCPBlockingCalls :: "api_monitor \<Rightarrow> api_call list" where
  "getLCPBlockingCalls m = filter (\<lambda>call. truthy (c_blockedLCP call)) (apiCalls m)"

definition getINPBlockingCalls :: "api_monitor \<Rightarrow> api_call list" where
  "getINPBlockingCalls m = filter (\<lambda>call. truthy (c_blockedINP call)) (apiCalls m)"

definition getAverageLatency :: "api_monitor \<Rightarrow> real" where
  "getAverageLatency m =
     (if length (apiCalls m) = 0 then 0
      else (let totalLatency = reduce_sum c_duration (apiCalls m)
            in totalLatency / real (length (apiCalls m))))"

text \<open>
  The three top-k readers sort a copy of the log (\<^verbatim>\<open>[...this.apiCalls]\<close>), so they return
  their result together with the monitor as it was. The parameter defaults to 10.
\<close>

definition getSlowestCalls :: "int option \<Rightarrow> api_monitor \<Rightarrow> api_call list \<times> api_monitor" where
  "getSlowestCalls cnt m =
     (js_slice0 (js_sort (\<lambda>a b. c_duration b - c_duration a) (apiCalls m))
        (case cnt of None \<Rightarrow> 10 | Some k \<Rightarrow> k), m)"

definition api_clear :: "api_monitor \<Rightarrow> api_monitor" where
  "api_clear m = m\<lparr>apiCalls := [], pendingRequests := []\<rparr>"

text \<open>The operations of the monitor that change its state, and a run of them in order.\<close>

datatype api_op =
    RecordAPICall call_data
  | SetLCPTime real
  | RecordINPEvent real
  | FetchIssued string string string real
  | FetchSettled string string string real real real real
  | ApiClear

fun api_step :: "api_monitor \<Rightarrow> api_op \<Rightarrow> api_monitor" where
  "api_step m (RecordAPICall cd) = recordAPICall cd m"
| "api_step m (SetLCPTime t) = api_setLCPTime t m"
| "api_step m (RecordINPEvent t) = api_recordINPEvent t m"
| "api_step m (FetchIssued rid u me st) = fetch_issued rid u me st m"
| "api_step m (FetchSettled rid u me st en status sz) = fetch_settled rid u me st en status sz m"
| "api_step m ApiClear = api_clear m"

definition api_run :: "api_monitor \<Rightarrow> api_op list \<Rightarrow> api_monitor" where
  "api_run m ops = foldl api_step m ops"

section \<open>TanStackQueryMonitor\<close>

datatype query_status = StatusPending | StatusError | StatusSuccess

datatype fetch_status = Fetching | Paused | Idle

text \<open>
  \<^verbatim>\<open>QueryCacheMetric\<close>, fields prefixed \<open>q_\<close>. The record stores no start instant.
\<close>

record query_metric =
  q_queryKey :: string
  q_status :: query_status
  q_fetchStatus :: fetch_status
  q_dataUpdatedAt :: real
  q_errorUpdatedAt :: real
  q_fetchDuration :: "real option"
  q_cacheTime :: real
  q_staleTime :: real
  q_blockedLCP :: "bool option"
  q_blockedINP :: "bool option"

text \<open>
  The cache library's query object, as far as the monitor reads it. A key is a string, an
  array or something else; for the last two the key carries the text that
  \<^verbatim>\<open>JSON.stringify\<close> or \<^verbatim>\<open>String\<close> gives for it.
\<close>

datatype raw_key = KeyString string | KeyArray string | KeyOther string

record raw_query =
  rq_queryKey :: raw_key
  rq_fetchStartTime :: "real option"
  rq_status :: query_status
  rq_fetchStatus :: fetch_status
  rq_dataUpdatedAt :: real
  rq_errorUpdatedAt :: real
  rq_cacheTime :: "real option"
  rq_staleTime :: "real option"

record query_event =
  ev_type :: string
  ev_query :: "raw_query option"

record exec_stat =
  ex_count :: nat
  ex_totalDuration :: real

record query_count =
  fq_queryKey :: string
  fq_count :: nat

record query_cache_stats =
  st_totalQueries :: nat
  st_activeQueries :: nat
  st_staleQueries :: nat
  st_erroredQueries :: nat
  st_averageFetchDuration :: real
  st_cacheHitRate :: real
  st_slowestQueries :: "query_metric list"
  st_mostFrequentQueries :: "query_count list"

record query_monitor =
  queryMetrics :: "query_metric list"
  queryExecutions :: "(string \<times> exec_stat) list"
  qm_initialized :: bool
  qm_lcpTime :: "real option"
  qm_inpEvents :: "(real \<times> bool) list"

definition query_new :: query_monitor where
  "query_new = \<lparr>queryMetrics = [], queryExecutions = [], qm_initialized = False,
                qm_lcpTime = None, qm_inpEvents = []\<rparr>"

fun serializeQueryKey :: "raw_key \<Rightarrow> string" where
  "serializeQueryKey (KeyString s) = s"
| "serializeQueryKey (KeyArray json) = json"
| "serializeQueryKey (KeyOther str) = str"

definition query_checkLCPBlocking :: "query_monitor \<Rightarrow> real \<Rightarrow> real \<Rightarrow> bool" where
  "query_checkLCPBlocking m startTime duration =
     (case qm_lcpTime m of
        None \<Rightarrow> False
      | Some lcp \<Rightarrow> (let endTime = startTime + duration in startTime < lcp \<and> endTime > lcp))"

definition query_checkINPBlocking :: "query_monitor \<Rightarrow> real \<Rightarrow> real \<Rightarrow> bool" where
  "query_checkINPBlocking m startTime duration =
     (let endTime = startTime + duration in inp_overlap (qm_inpEvents m) startTime endTime)"

text \<open>
  The correlation passes skip a record whose \<^verbatim>\<open>fetchDuration\<close> is falsy, and take
  \<^verbatim>\<open>dataUpdatedAt - fetchDuration\<close> for the start of the others.
\<close>

definition query_correlateWithLCP :: "query_monitor \<Rightarrow> query_monitor" where
  "query_correlateWithLCP m =
     (case qm_lcpTime m of
        None \<Rightarrow> m
      | Some lcp \<Rightarrow>
          m\<lparr>queryMetrics :=
              map (\<lambda>metric.
                     if truthy_num (q_fetchDuration metric) \<and> \<not> truthy (q_blockedLCP metric)
                     then metric\<lparr>q_blockedLCP :=
                            Some (query_checkLCPBlocking m
                                    (q_dataUpdatedAt metric - the (q_fetchDuration metric))
                                    (the (q_fetchDuration metric)))\<rparr>
                     else metric)
                  (queryMetrics m)\<rparr>)"

definition query_correlateWithINP :: "query_monitor \<Rightarrow> query_monitor" where
  "query_correlateWithINP m =
     m\<lparr>queryMetrics :=
         map (\<lambda>metric.
                if truthy_num (q_fetchDuration metric) \<and> \<not> truthy (q_blockedINP metric)
                then metric\<lparr>q_blockedINP :=
                       Some (query_checkINPBlocking m
                               (q_dataUpdatedAt metric - the (q_fetchDuration metric))
                               (the (q_fetchDuration metric)))\<rparr>
                else metric)
             (queryMetrics m)\<rparr>"

definition query_setLCPTime :: "real \<Rightarrow> query_monitor \<Rightarrow> query_monitor" where
  "query_setLCPTime time m = query_correlateWithLCP (m\<lparr>qm_lcpTime := Some time\<rparr>)"

definition query_recordINPEvent :: "real \<Rightarrow> query_monitor \<Rightarrow> query_monitor" where
  "query_recordINPEvent time m =
     query_correlateWithINP (m\<lparr>qm_inpEvents := AList.update time True (qm_inpEvents m)\<rparr>)"

text \<open>
  \<^verbatim>\<open>handleQueryEvent\<close> reads the clock twice: \<open>now1\<close> is the reading that stands in for a
  missing \<^verbatim>\<open>_fetchStartTime\<close>, \<open>now2\<close> the one the duration is measured to.
\<close>

definition handleQueryEvent ::
  "query_event \<Rightarrow> real \<Rightarrow> real \<Rightarrow> query_monitor \<Rightarrow> query_monitor" where
  "handleQueryEvent event now1 now2 m =
     (if ev_type event \<noteq> ''updated'' then m
      else case ev_query event of
        None \<Rightarrow> m
      | Some query \<Rightarrow>
          (let queryKey = serializeQueryKey (rq_queryKey query);
               startTime = num_or (rq_fetchStartTime query) now1;
               fetchDuration =
                 (if rq_dataUpdatedAt query > 0 then Some (now2 - startTime) else None);
               existing =
                 (case map_of (queryExecutions m) queryKey of
                    None \<Rightarrow> \<lparr>ex_count = 0, ex_totalDuration = 0\<rparr>
                  | Some e \<Rightarrow> e);
               m1 = m\<lparr>queryExecutions :=
                       AList.update queryKey
                         \<lparr>ex_count = ex_count existing + 1,
                          ex_totalDuration = ex_totalDuration existing + num_or fetchDuration 0\<rparr>
                         (queryExecutions m)\<rparr>;
               metric =
                 \<lparr>q_queryKey = queryKey,
                  q_status = rq_status query,
                  q_fetchStatus = rq_fetchStatus query,
                  q_dataUpdatedAt = rq_dataUpdatedAt query,
                  q_errorUpdatedAt = rq_errorUpdatedAt query,
                  q_fetchDuration = fetchDuration,
                  q_cacheTime = num_or (rq_cacheTime query) 300000,
                  q_staleTime = num_or (rq_staleTime query) 0,
                  q_blockedLCP =
                    Some (query_checkLCPBlocking m1 startTime (num_or fetchDuration 0)),
                  q_blockedINP =
                    Some (query_checkINPBlocking m1 startTime (num_or fetchDuration 0))\<rparr>
           in m1\<lparr>queryMetrics := queryMetrics m1 @ [metric]\<rparr>))"

definition snapshotCurrentQueries :: "raw_query list \<Rightarrow> query_monitor \<Rightarrow> query_monitor" where
  "snapshotCurrentQueries queries m =
     m\<lparr>queryMetrics := queryMetrics m @
         map (\<lambda>query.
                \<lparr>q_queryKey = serializeQueryKey (rq_queryKey query),
                 q_status = rq_status query,
                 q_fetchStatus = rq_fetchStatus query,
                 q_dataUpdatedAt = rq_dataUpdatedAt query,
                 q_errorUpdatedAt = rq_errorUpdatedAt query,
                 q_fetchDuration = None,
                 q_cacheTime = num_or (rq_cacheTime query) 300000,
                 q_staleTime = num_or (rq_staleTime query) 0,
                 q_blockedLCP = None,
                 q_blockedINP = None\<rparr>)
             queries\<rparr>"

text \<open>\<^verbatim>\<open>initialize\<close>, given the queries the client's cache holds at that moment.\<close>

definition query_initialize :: "raw_query list \<Rightarrow> query_monitor \<Rightarrow> query_monitor" where
  "query_initialize queries m =
     (if qm_initialized m then m
      else (snapshotCurrentQueries queries m)\<lparr>qm_initialized := True\<rparr>)"

definition query_disconnect :: "query_monitor \<Rightarrow> query_monitor" where
  "query_disconnect m = m\<lparr>qm_initialized := False\<rparr>"

definition getQueryMetrics :: "query_monitor \<Rightarrow> query_metric list" where
  "getQueryMetrics m = queryMetrics m"

definition totalExecutions :: "query_monitor \<Rightarrow> nat" where
  "totalExecutions m = reduce_sum ex_count (map snd (queryExecutions m))"

text \<open>\<^verbatim>\<open>getQueryCacheStats\<close>, given the reading of the clock.\<close>

definition getQueryCacheStats :: "real \<Rightarrow> query_monitor \<Rightarrow> query_cache_stats" where
  "getQueryCacheStats now m =
     (let allQueries = queryMetrics m;
          totalQueries = length allQueries;
          activeQueries = length (filter (\<lambda>q. q_fetchStatus q = Fetching) allQueries);
          staleQueries =
            length (filter (\<lambda>q. q_dataUpdatedAt q > 0 \<and> now - q_dataUpdatedAt q > q_staleTime q)
                      allQueries);
          erroredQueries = length (filter (\<lambda>q. q_status q = StatusError) allQueries);
          queriesWithDuration = filter (\<lambda>q. q_fetchDuration q \<noteq> None) allQueries;
          averageFetchDuration =
            (if length queriesWithDuration > 0
             then reduce_sum (\<lambda>q. num_or (q_fetchDuration q) 0) queriesWithDuration
                    / real (length queriesWithDuration)
             else 0);
          totalExecutions = totalExecutions m;
          cacheHitRate =
            (if totalExecutions > 0
             then (real totalExecutions - real totalQueries) / real totalExecutions
             else 0);
          slowestQueries =
            js_slice0
              (js_sort (\<lambda>a b. num_or (q_fetchDuration b) 0 - num_or (q_fetchDuration a) 0)
                 (filter (\<lambda>q. q_fetchDuration q \<noteq> None) allQueries))
              10;
          mostFrequentQueries =
            js_slice0
              (js_sort (\<lambda>a b. real (fq_count b) - real (fq_count a))
                 (map (\<lambda>(queryKey, stats). \<lparr>fq_queryKey = queryKey, fq_count = ex_count stats\<rparr>)
                    (queryExecutions m)))
              10
      in \<lparr>st_totalQueries = totalQueries,
          st_activeQueries = activeQueries,
          st_staleQueries = staleQueries,
          st_erroredQueries = erroredQueries,
          st_averageFetchDuration = averageFetchDuration,
          st_cacheHitRate = cacheHitRate,
          st_slowestQueries = slowestQueries,
          st_mostFrequentQueries = mostFrequentQueries\<rparr>)"

definition query_clear :: "query_monitor \<Rightarrow> query_monitor" where
  "query_clear m = m\<lparr>queryMetrics := [], queryExecutions := []\<rparr>"

datatype query_op =
    HandleQueryEvent query_event real real
  | QuerySetLCPTime real
  | QueryRecordINPEvent real
  | QueryInitialize "raw_query list"
  | QueryDisconnect
  | QueryClear

fun query_step :: "query_monitor \<Rightarrow> query_op \<Rightarrow> query_monitor" where
  "query_step m (HandleQueryEvent ev now1 now2) = handleQueryEvent ev now1 now2 m"
| "query_step m (QuerySetLCPTime t) = query_setLCPTime t m"
| "query_step m (QueryRecordINPEvent t) = query_recordINPEvent t m"
| "query_step m (QueryInitialize qs) = query_initialize qs m"
| "query_step m QueryDisconnect = query_disconnect m"
| "query_step m QueryClear = query_clear m"

definition query_run :: "query_monitor \<Rightarrow> query_op list \<Rightarrow> query_monitor" where
  "query_run m ops = foldl query_step m ops"

section \<open>ResourceTimingMonitor\<close>

datatype render_blocking = Blocking | NonBlocking

text \<open>
  The platform's \<^verbatim>\<open>PerformanceResourceTiming\<close> entry (fields prefixed \<open>e_\<close>); its
  \<^verbatim>\<open>renderBlockingStatus\<close> is present in newer browsers only.
\<close>

record resource_entry =
  e_name :: string
  e_entryType :: string
  e_startTime :: real
  e_duration :: real
  e_initiatorType :: string
  e_nextHopProtocol :: string
  e_renderBlockingStatus :: "string option"
  e_fetchStart :: real
  e_domainLookupStart :: real
  e_domainLookupEnd :: real
  e_connectStart :: real
  e_connectEnd :: real
  e_secureConnectionStart :: real
  e_requestStart :: real
  e_responseStart :: real
  e_responseEnd :: real
  e_transferSize :: real
  e_encodedBodySize :: real
  e_decodedBodySize :: real

text \<open>\<^verbatim>\<open>ResourceTimingEntry\<close>, fields prefixed \<open>r_\<close>.\<close>

record resource_timing =
  r_name :: string
  r_entryType :: string
  r_startTime :: real
  r_duration :: real
  r_initiatorType :: string
  r_nextHopProtocol :: string
  r_renderBlockingStatus :: render_blocking
  r_fetchStart :: real
  r_domainLookupStart :: real
  r_domainLookupEnd :: real
  r_connectStart :: real
  r_connectEnd :: real
  r_secureConnectionStart :: real
  r_requestStart :: real
  r_responseStart :: real
  r_responseEnd :: real
  r_transferSize :: real
  r_encodedBodySize :: real
  r_decodedBodySize :: real
  r_compressionRatio :: "real option"

record resource_monitor =
  resources :: "resource_timing list"
  rm_initialized :: bool

definition resource_new :: resource_monitor where
  "resource_new = \<lparr>resources = [], rm_initialized = False\<rparr>"

text \<open>\<^verbatim>\<open>s.includes(t)\<close> and a match of \<^verbatim>\<open>/\.(woff2?|ttf|otf|eot)$/\<close>.\<close>

fun starts_with :: "string \<Rightarrow> string \<Rightarrow> bool" where
  "starts_with s [] = True"
| "starts_with [] (c # t) = False"
| "starts_with (d # s) (c # t) = (d = c \<and> starts_with s t)"

fun str_includes :: "string \<Rightarrow> string \<Rightarrow> bool" where
  "str_includes [] t = (t = [])"
| "str_includes (d # s) t = (starts_with (d # s) t \<or> str_includes s t)"

definition ends_with :: "string \<Rightarrow> string \<Rightarrow> bool" where
  "ends_with s t = starts_with (rev s) (rev t)"

definition font_suffix :: "string \<Rightarrow> bool" where
  "font_suffix name =
     (ends_with name ''.woff'' \<or> ends_with name ''.woff2'' \<or> ends_with name ''.ttf''
      \<or> ends_with name ''.otf'' \<or> ends_with name ''.eot'')"

definition getRenderBlockingStatus :: "resource_entry \<Rightarrow> render_blocking" where
  "getRenderBlockingStatus entry =
     (case e_renderBlockingStatus entry of
        Some st \<Rightarrow> (if st = ''blocking'' then Blocking else NonBlocking)
      | None \<Rightarrow>
          (let isStylesheet = (e_initiatorType entry = ''link'' \<and> str_includes (e_name entry) ''.css'');
               isBlockingScript =
                 (e_initiatorType entry = ''script'' \<and> \<not> str_includes (e_name entry) ''async''
                  \<and> \<not> str_includes (e_name entry) ''defer'');
               isFont = (e_initiatorType entry = ''css'' \<or> font_suffix (e_name entry));
               isEarlyLoad = (e_startTime entry < 1000)
           in if (isStylesheet \<or> isBlockingScript \<or> isFont) \<and> isEarlyLoad then Blocking
              else NonBlocking))"

definition convertToResourceTiming :: "resource_entry \<Rightarrow> resource_timing" where
  "convertToResourceTiming entry =
     (let compressionRatio =
            (if e_encodedBodySize entry > 0
             then Some (e_decodedBodySize entry / e_encodedBodySize entry)
             else None);
          renderBlockingStatus = getRenderBlockingStatus entry
      in \<lparr>r_name = e_name entry,
          r_entryType = e_entryType entry,
          r_startTime = e_startTime entry,
          r_duration = e_duration entry,
          r_initiatorType = e_initiatorType entry,
          r_nextHopProtocol = e_nextHopProtocol entry,
          r_renderBlockingStatus = renderBlockingStatus,
          r_fetchStart = e_fetchStart entry,
          r_domainLookupStart = e_domainLookupStart entry,
          r_domainLookupEnd = e_domainLookupEnd entry,
          r_connectStart = e_connectStart entry,
          r_connectEnd = e_connectEnd entry,
          r_secureConnectionStart = e_secureConnectionStart entry,
          r_requestStart = e_requestStart entry,
          r_responseStart = e_responseStart entry,
          r_responseEnd = e_responseEnd entry,
          r_transferSize = e_transferSize entry,
          r_encodedBodySize = e_encodedBodySize entry,
          r_decodedBodySize = e_decodedBodySize entry,
          r_compressionRatio = compressionRatio\<rparr>)"

definition handleResourceEntry :: "resource_entry \<Rightarrow> resource_monitor \<Rightarrow> resource_monitor" where
  "handleResourceEntry entry m =
     (let resource = convertToResourceTiming entry
      in m\<lparr>resources := resources m @ [resource]\<rparr>)"

definition getResources :: "resource_monitor \<Rightarrow> resource_timing list" where
  "getResources m = resources m"

definition getBlockingResources :: "resource_monitor \<Rightarrow> resource_timing list" where
  "getBlockingResources m = filter (\<lambda>r. r_renderBlockingStatus r = Blocking) (resources m)"

definition getLargestResources ::
  "int option \<Rightarrow> resource_monitor \<Rightarrow> resource_timing list \<times> resource_monitor" where
  "getLargestResources cnt m =
     (js_slice0 (js_sort (\<lambda>a b. r_transferSize b - r_transferSize a) (resources m))
        (case cnt of None \<Rightarrow> 10 | Some k \<Rightarrow> k), m)"

definition getSlowestResources ::
  "int option \<Rightarrow> resource_monitor \<Rightarrow> resource_timing list \<times> resource_monitor" where
  "getSlowestResources cnt m =
     (js_slice0 (js_sort (\<lambda>a b. r_duration b - r_duration a) (resources m))
        (case cnt of None \<Rightarrow> 10 | Some k \<Rightarrow> k), m)"

definition getTotalTransferSize :: "resource_monitor \<Rightarrow> real" where
  "getTotalTransferSize m = reduce_sum r_transferSize (resources m)"

text \<open>
  \<^verbatim>\<open>getAverageCompressionRatio\<close>: the filter keeps a ratio that is defined and greater
  than 0.
\<close>

definition getAverageCompressionRatio :: "resource_monitor \<Rightarrow> real" where
  "getAverageCompressionRatio m =
     (let ratios =
            map the
              (filter (\<lambda>r. r \<noteq> None \<and> the r > 0) (map r_compressionRatio (resources m)))
      in if length ratios = 0 then 0
         else reduce_sum (\<lambda>r. r) ratios / real (length ratios))"

definition resource_clear :: "resource_monitor \<Rightarrow> resource_monitor" where
  "resource_clear m = m\<lparr>resources := []\<rparr>"

section \<open>LoAFMonitor\<close>

record script_attribution =
  sc_invoker :: string
  sc_invokerType :: string
  sc_sourceURL :: string
  sc_sourceFunctionName :: string
  sc_sourceCharPosition :: real
  sc_executionStart :: real
  sc_duration :: real
  sc_forcedStyleAndLayoutDuration :: real

text \<open>\<^verbatim>\<open>LongAnimationFrameEntry\<close>, fields prefixed \<open>f_\<close>.\<close>

record long_frame =
  f_name :: string
  f_entryType :: string
  f_startTime :: real
  f_duration :: real
  f_renderStart :: real
  f_styleAndLayoutStart :: real
  f_firstUIEventTimestamp :: real
  f_blockingDuration :: real
  f_scripts :: "script_attribution list"

text \<open>
  The platform's long-animation-frame entry and its scripts, read as \<^verbatim>\<open>any\<close>: every field
  the handler guards with \<^verbatim>\<open>||\<close> may be missing.
\<close>

record raw_script =
  rs_invoker :: "string option"
  rs_invokerType :: "string option"
  rs_sourceURL :: "string option"
  rs_sourceLocation :: "string option"
  rs_sourceFunctionName :: "string option"
  rs_sourceCharPosition :: "real option"
  rs_executionStart :: "real option"
  rs_duration :: "real option"
  rs_forcedStyleAndLayoutDuration :: "real option"

record loaf_entry =
  le_name :: "string option"
  le_startTime :: real
  le_duration :: real
  le_renderStart :: "real option"
  le_styleAndLayoutStart :: "real option"
  le_firstUIEventTimestamp :: "real option"
  le_blockingDuration :: "real option"
  le_scripts :: "raw_script list option"

text \<open>The platform's long-task entry, the coarser signal of the fallback path.\<close>

record longtask_entry =
  lt_name :: string
  lt_startTime :: real
  lt_duration :: real

record loaf_monitor =
  frames :: "long_frame list"
  lm_initialized :: bool

definition loaf_new :: loaf_monitor where
  "loaf_new = \<lparr>frames = [], lm_initialized = False\<rparr>"

definition extractScripts :: "loaf_entry \<Rightarrow> script_attribution list" where
  "extractScripts entry =
     (case le_scripts entry of
        None \<Rightarrow> []
      | Some scripts \<Rightarrow>
          map (\<lambda>script.
                 \<lparr>sc_invoker = str_or (rs_invoker script) ''unknown'',
                  sc_invokerType = str_or (rs_invokerType script) ''unknown'',
                  sc_sourceURL =
                    str_or (rs_sourceURL script) (str_or (rs_sourceLocation script) ''unknown''),
                  sc_sourceFunctionName = str_or (rs_sourceFunctionName script) ''anonymous'',
                  sc_sourceCharPosition = num_or (rs_sourceCharPosition script) 0,
                  sc_executionStart = num_or (rs_executionStart script) 0,
                  sc_duration = num_or (rs_duration script) 0,
                  sc_forcedStyleAndLayoutDuration =
                    num_or (rs_forcedStyleAndLayoutDuration script) 0\<rparr>)
              scripts)"

definition handleLoAFEntry :: "loaf_entry \<Rightarrow> loaf_monitor \<Rightarrow> loaf_monitor" where
  "handleLoAFEntry entry m =
     (let frame =
            \<lparr>f_name = str_or (le_name entry) ''long-animation-frame'',
             f_entryType = ''long-animation-frame'',
             f_startTime = le_startTime entry,
             f_duration = le_duration entry,
             f_renderStart = num_or (le_renderStart entry) 0,
             f_styleAndLayoutStart = num_or (le_styleAndLayoutStart entry) 0,
             f_firstUIEventTimestamp = num_or (le_firstUIEventTimestamp entry) 0,
             f_blockingDuration = num_or (le_blockingDuration entry) 0,
             f_scripts = extractScripts entry\<rparr>
      in m\<lparr>frames := frames m @ [frame]\<rparr>)"

definition handleLongTaskEntry :: "longtask_entry \<Rightarrow> loaf_monitor \<Rightarrow> loaf_monitor" where
  "handleLongTaskEntry entry m =
     (let frame =
            \<lparr>f_name = lt_name entry,
             f_entryType = ''long-animation-frame'',
             f_startTime = lt_startTime entry,
             f_duration = lt_duration entry,
             f_renderStart = 0,
             f_styleAndLayoutStart = 0,
             f_firstUIEventTimestamp = 0,
             f_blockingDuration = max 0 (lt_duration entry - 50),
             f_scripts =
               [\<lparr>sc_invoker = ''unknown'',
                 sc_invokerType = ''unknown'',
                 sc_sourceURL = ''unknown (longtask fallback)'',
                 sc_sourceFunctionName = ''unknown'',
                 sc_sourceCharPosition = 0,
                 sc_executionStart = lt_startTime entry,
                 sc_duration = lt_duration entry,
                 sc_forcedStyleAndLayoutDuration = 0\<rparr>]\<rparr>
      in m\<lparr>frames := frames m @ [frame]\<rparr>)"

definition getFrames :: "loaf_monitor \<Rightarrow> long_frame list" where
  "getFrames m = frames m"

definition getTotalBlockingTime :: "loaf_monitor \<Rightarrow> real" where
  "getTotalBlockingTime m =
     foldl (\<lambda>sum frame. (let blockingTime = max 0 (f_duration frame - 50) in sum + blockingTime))
       0 (frames m)"

definition loaf_clear :: "loaf_monitor \<Rightarrow> loaf_monitor" where
  "loaf_clear m = m\<lparr>frames := []\<rparr>"

section \<open>WebVitalsMonitor\<close>

datatype metric_name = LCP | CLS | INP | FCP | TTFB

datatype rating = Good | NeedsImprovement | Poor

record lcp_attribution =
  la_element :: "string option"
  la_url :: "string option"
  la_timeToFirstByte :: real
  la_resourceLoadDelay :: real
  la_resourceLoadDuration :: "real option"
  la_resourceLoadTime :: "real option"
  la_elementRenderDelay :: real

record cls_attribution =
  ca_largestShiftTarget :: "string option"
  ca_largestShiftValue :: real
  ca_largestShiftTime :: real
  ca_loadState :: string

record inp_attribution =
  ia_interactionTarget :: "string option"
  ia_eventTarget :: "string option"
  ia_interactionType :: "string option"
  ia_eventType :: "string option"
  ia_interactionTime :: "real option"
  ia_eventTime :: "real option"
  ia_inputDelay :: "real option"
  ia_processingStart :: "real option"
  ia_processingDuration :: "real option"
  ia_processingEnd :: "real option"
  ia_presentationDelay :: "real option"
  ia_presentationTime :: "real option"

datatype attribution =
    LCPAttribution lcp_attribution
  | CLSAttribution cls_attribution
  | INPAttribution inp_attribution

text \<open>\<^verbatim>\<open>EnhancedWebVitalsMetric\<close>, fields prefixed \<open>v_\<close>.\<close>

record vitals_metric =
  v_name :: metric_name
  v_value :: real
  v_rating :: rating
  v_delta :: real
  v_id :: string
  v_navigationType :: string
  v_timestamp :: real
  v_url :: string
  v_userAgent :: string
  v_attribution :: "attribution option"

text \<open>
  Of the observers registered with \<^verbatim>\<open>onMetric\<close> the state keeps how many times
  \<^verbatim>\<open>setupCorrelations\<close> has registered its closure, the only observer the repository
  registers itself.
\<close>

record web_vitals_monitor =
  metrics :: "vitals_metric list"
  wv_initialized :: bool
  wv_correlationHooks :: nat

definition web_vitals_new :: web_vitals_monitor where
  "web_vitals_new = \<lparr>metrics = [], wv_initialized = False, wv_correlationHooks = 0\<rparr>"

definition storeMetric :: "vitals_metric \<Rightarrow> web_vitals_monitor \<Rightarrow> web_vitals_monitor" where
  "storeMetric metric m = m\<lparr>metrics := metrics m @ [metric]\<rparr>"

definition getMetrics :: "web_vitals_monitor \<Rightarrow> vitals_metric list" where
  "getMetrics m = metrics m"

definition getLatestMetric :: "metric_name \<Rightarrow> web_vitals_monitor \<Rightarrow> vitals_metric option" where
  "getLatestMetric name m =
     (let filtered = filter (\<lambda>x. v_name x = name) (metrics m)
      in if length filtered > 0 then Some (filtered ! (length filtered - 1)) else None)"

definition web_vitals_clear :: "web_vitals_monitor \<Rightarrow> web_vitals_monitor" where
  "web_vitals_clear m = m\<lparr>metrics := []\<rparr>"

section \<open>PerformanceMonitor\<close>

datatype framework = React | Vue | Other

record hydration_metric =
  h_startTime :: real
  h_endTime :: real
  h_duration :: real
  h_componentsHydrated :: real
  h_framework :: framework
  h_lcpBeforeHydration :: "real option"
  h_lcpAfterHydration :: "real option"
  h_lcpElement :: "string option"

text \<open>The platform's navigation entry and the \<^verbatim>\<open>NavigationMetric\<close> derived from it.\<close>

record nav_timing =
  nt_type :: string
  nt_fetchStart :: real
  nt_domainLookupStart :: real
  nt_domainLookupEnd :: real
  nt_connectStart :: real
  nt_connectEnd :: real
  nt_requestStart :: real
  nt_responseStart :: real
  nt_responseEnd :: real
  nt_domInteractive :: real
  nt_domContentLoadedEventStart :: real
  nt_domContentLoadedEventEnd :: real
  nt_domComplete :: real
  nt_loadEventStart :: real
  nt_loadEventEnd :: real

record navigation_metric =
  n_navigationType :: string
  n_domainLookupStart :: real
  n_domainLookupEnd :: real
  n_connectStart :: real
  n_connectEnd :: real
  n_requestStart :: real
  n_responseStart :: real
  n_responseEnd :: real
  n_domInteractive :: real
  n_domContentLoadedEventStart :: real
  n_domContentLoadedEventEnd :: real
  n_domComplete :: real
  n_loadEventStart :: real
  n_loadEventEnd :: real
  n_dnsTime :: real
  n_tcpTime :: real
  n_ttfb :: real
  n_downloadTime :: real
  n_domProcessingTime :: real
  n_pageLoadTime :: real

record performance_summary =
  sum_totalResources :: nat
  sum_blockingResources :: nat
  sum_totalTransferSize :: real
  sum_averageCompressionRatio :: real
  sum_apiCallCount :: nat
  sum_averageApiLatency :: real
  sum_longFrameCount :: nat
  sum_totalBlockingTime :: real
  sum_queryCount :: "nat option"
  sum_queryCacheHitRate :: "real option"
  sum_averageQueryDuration :: "real option"

text \<open>\<^verbatim>\<open>PerformanceSession\<close>, the snapshot; fields prefixed \<open>s_\<close>.\<close>

record performance_session =
  s_sessionId :: string
  s_url :: string
  s_timestamp :: real
  s_userAgent :: string
  s_framework :: framework
  s_webVitals :: "vitals_metric list"
  s_navigation :: "navigation_metric option"
  s_hydration :: "hydration_metric option"
  s_resources :: "resource_timing list"
  s_longFrames :: "long_frame list"
  s_apiCalls :: "api_call list"
  s_queryCache :: "query_cache_stats option"
  s_summary :: performance_summary

text \<open>What a snapshot reads from the page: location, user agent, navigation entry, clock.\<close>

record page_env =
  env_href :: string
  env_userAgent :: string
  env_navTiming :: "nav_timing option"
  env_now :: real

text \<open>
  The monitor with the five collectors it holds. (The source obtains the collectors from
  per-class singletons; the model is of one \<^verbatim>\<open>PerformanceMonitor\<close> in the process.)
\<close>

record perf_monitor =
  sessionId :: string
  sessionStartTime :: real
  pm_framework :: framework
  webVitalsMonitor :: web_vitals_monitor
  resourceMonitor :: resource_monitor
  loafMonitor :: loaf_monitor
  apiMonitor :: api_monitor
  queryMonitor :: query_monitor
  hydrationStartTime :: "real option"
  hydrationMetric :: "hydration_metric option"
  queryClientInitialized :: bool

text \<open>The constructor, given the generated session id and the reading of the clock.\<close>

definition pm_new :: "framework \<Rightarrow> string \<Rightarrow> real \<Rightarrow> perf_monitor" where
  "pm_new fw sid now =
     \<lparr>sessionId = sid, sessionStartTime = now, pm_framework = fw,
      webVitalsMonitor = web_vitals_new, resourceMonitor = resource_new,
      loafMonitor = loaf_new, apiMonitor = api_new, queryMonitor = query_new,
      hydrationStartTime = None, hydrationMetric = None, queryClientInitialized = False\<rparr>"

text \<open>
  \<^verbatim>\<open>initialize\<close>: each collector's own \<^verbatim>\<open>initialize\<close> sets its flag unless it is set (the
  two observer-based ones only where the platform supports the observer), then
  \<^verbatim>\<open>setupCorrelations\<close> registers its observer.
\<close>

definition pm_initialize :: "bool \<Rightarrow> bool \<Rightarrow> perf_monitor \<Rightarrow> perf_monitor" where
  "pm_initialize resourceSupported framesSupported s =
     s\<lparr>webVitalsMonitor :=
         (webVitalsMonitor s)\<lparr>wv_initialized := True,
            wv_correlationHooks := wv_correlationHooks (webVitalsMonitor s) + 1\<rparr>,
       resourceMonitor :=
         (if rm_initialized (resourceMonitor s) \<or> \<not> resourceSupported then resourceMonitor s
          else (resourceMonitor s)\<lparr>rm_initialized := True\<rparr>),
       loafMonitor :=
         (if lm_initialized (loafMonitor s) \<or> \<not> framesSupported then loafMonitor s
          else (loafMonitor s)\<lparr>lm_initialized := True\<rparr>),
       apiMonitor := (apiMonitor s)\<lparr>api_initialized := True\<rparr>\<rparr>"

definition initializeQueryClient :: "raw_query list \<Rightarrow> perf_monitor \<Rightarrow> perf_monitor" where
  "initializeQueryClient queries s =
     (if queryClientInitialized s then s
      else s\<lparr>queryMonitor := query_initialize queries (queryMonitor s),
             queryClientInitialized := True\<rparr>)"

definition markHydrationStart :: "real \<Rightarrow> perf_monitor \<Rightarrow> perf_monitor" where
  "markHydrationStart now s = s\<lparr>hydrationStartTime := Some now\<rparr>"

text \<open>\<^verbatim>\<open>(attribution as any).element\<close>: only the paint attribution has the field.\<close>

fun attribution_element :: "attribution \<Rightarrow> string option" where
  "attribution_element (LCPAttribution a) = la_element a"
| "attribution_element (CLSAttribution a) = None"
| "attribution_element (INPAttribution a) = None"

definition markHydrationEnd :: "real \<Rightarrow> real option \<Rightarrow> perf_monitor \<Rightarrow> perf_monitor" where
  "markHydrationEnd now componentCount s =
     (case hydrationStartTime s of
        None \<Rightarrow> s
      | Some start \<Rightarrow>
          (let endTime = now;
               duration = endTime - start;
               lcpMetric = getLatestMetric LCP (webVitalsMonitor s)
           in s\<lparr>hydrationMetric := Some
                \<lparr>h_startTime = start,
                 h_endTime = endTime,
                 h_duration = duration,
                 h_componentsHydrated = num_or componentCount 0,
                 h_framework = pm_framework s,
                 h_lcpBeforeHydration =
                   (case lcpMetric of
                      Some l \<Rightarrow> if v_timestamp l < endTime then Some (v_value l) else None
                    | None \<Rightarrow> None),
                 h_lcpAfterHydration =
                   (case lcpMetric of
                      Some l \<Rightarrow> if v_timestamp l \<ge> endTime then Some (v_value l) else None
                    | None \<Rightarrow> None),
                 h_lcpElement =
                   (case lcpMetric of
                      Some l \<Rightarrow>
                        (case v_attribution l of
                           Some a \<Rightarrow> attribution_element a
                         | None \<Rightarrow> None)
                    | None \<Rightarrow> None)\<rparr>\<rparr>))"

definition getNavigationMetric :: "page_env \<Rightarrow> navigation_metric option" where
  "getNavigationMetric env =
     (case env_navTiming env of
        None \<Rightarrow> None
      | Some navTiming \<Rightarrow> Some
          \<lparr>n_navigationType = nt_type navTiming,
           n_domainLookupStart = nt_domainLookupStart navTiming,
           n_domainLookupEnd = nt_domainLookupEnd navTiming,
           n_connectStart = nt_connectStart navTiming,
           n_connectEnd = nt_connectEnd navTiming,
           n_requestStart = nt_requestStart navTiming,
           n_responseStart = nt_responseStart navTiming,
           n_responseEnd = nt_responseEnd navTiming,
           n_domInteractive = nt_domInteractive navTiming,
           n_domContentLoadedEventStart = nt_domContentLoadedEventStart navTiming,
           n_domContentLoadedEventEnd = nt_domContentLoadedEventEnd navTiming,
           n_domComplete = nt_domComplete navTiming,
           n_loadEventStart = nt_loadEventStart navTiming,
           n_loadEventEnd = nt_loadEventEnd navTiming,
           n_dnsTime = nt_domainLookupEnd navTiming - nt_domainLookupStart navTiming,
           n_tcpTime = nt_connectEnd navTiming - nt_connectStart navTiming,
           n_ttfb = nt_responseStart navTiming - nt_requestStart navTiming,
           n_downloadTime = nt_responseEnd navTiming - nt_responseStart navTiming,
           n_domProcessingTime = nt_domComplete navTiming - nt_domInteractive navTiming,
           n_pageLoadTime = nt_loadEventEnd navTiming - nt_fetchStart navTiming\<rparr>)"

definition getPerformanceSession :: "page_env \<Rightarrow> perf_monitor \<Rightarrow> performance_session" where
  "getPerformanceSession env s =
     (let webVitals = getMetrics (webVitalsMonitor s);
          resources = getResources (resourceMonitor s);
          longFrames = getFrames (loafMonitor s);
          apiCalls = getAPICalls (apiMonitor s);
          navigation = getNavigationMetric env;
          queryCache =
            (if queryClientInitialized s
             then Some (getQueryCacheStats (env_now env) (queryMonitor s)) else None);
          summary =
            \<lparr>sum_totalResources = length resources,
             sum_blockingResources = length (getBlockingResources (resourceMonitor s)),
             sum_totalTransferSize = getTotalTransferSize (resourceMonitor s),
             sum_averageCompressionRatio = getAverageCompressionRatio (resourceMonitor s),
             sum_apiCallCount = length apiCalls,
             sum_averageApiLatency = getAverageLatency (apiMonitor s),
             sum_longFrameCount = length longFrames,
             sum_totalBlockingTime = getTotalBlockingTime (loafMonitor s),
             sum_queryCount = map_option st_totalQueries queryCache,
             sum_queryCacheHitRate = map_option st_cacheHitRate queryCache,
             sum_averageQueryDuration = map_option st_averageFetchDuration queryCache\<rparr>
      in \<lparr>s_sessionId = sessionId s,
          s_url = env_href env,
          s_timestamp = sessionStartTime s,
          s_userAgent = env_userAgent env,
          s_framework = pm_framework s,
          s_webVitals = webVitals,
          s_navigation = navigation,
          s_hydration = hydrationMetric s,
          s_resources = resources,
          s_longFrames = longFrames,
          s_apiCalls = apiCalls,
          s_queryCache = queryCache,
          s_summary = summary\<rparr>)"

definition pm_clear :: "perf_monitor \<Rightarrow> perf_monitor" where
  "pm_clear s =
     s\<lparr>webVitalsMonitor := web_vitals_clear (webVitalsMonitor s),
       resourceMonitor := resource_clear (resourceMonitor s),
       loafMonitor := loaf_clear (loafMonitor s),
       apiMonitor := api_clear (apiMonitor s),
       queryMonitor :=
         (if queryClientInitialized s then query_clear (queryMonitor s) else queryMonitor s),
       hydrationMetric := None,
       hydrationStartTime := None\<rparr>"

text \<open>
  The observer of \<^verbatim>\<open>setupCorrelations\<close>, run for a stored metric once per registration.
\<close>

definition correlationHook :: "vitals_metric \<Rightarrow> perf_monitor \<Rightarrow> perf_monitor" where
  "correlationHook metric s =
     (let s1 =
            (if v_name metric = LCP
             then s\<lparr>apiMonitor := api_setLCPTime (v_value metric) (apiMonitor s),
                    queryMonitor :=
                      (if queryClientInitialized s
                       then query_setLCPTime (v_value metric) (queryMonitor s)
                       else queryMonitor s)\<rparr>
             else s)
      in if v_name metric = INP
         then s1\<lparr>apiMonitor := api_recordINPEvent (v_value metric) (apiMonitor s1),
                 queryMonitor :=
                   (if queryClientInitialized s1
                    then query_recordINPEvent (v_value metric) (queryMonitor s1)
                    else queryMonitor s1)\<rparr>
         else s1)"

text \<open>
  A metric reported by the platform: \<^verbatim>\<open>storeMetric\<close> appends it and then calls the
  registered observers.
\<close>

definition onWebVital :: "vitals_metric \<Rightarrow> perf_monitor \<Rightarrow> perf_monitor" where
  "onWebVital metric s =
     (correlationHook metric ^^ wv_correlationHooks (webVitalsMonitor s))
       (s\<lparr>webVitalsMonitor := storeMetric metric (webVitalsMonitor s)\<rparr>)"

text \<open>Everything that can happen to a monitor between its construction and a snapshot.\<close>

datatype pm_op =
    Initialize bool bool
  | InitializeQueryClient "raw_query list"
  | MarkHydrationStart real
  | MarkHydrationEnd real "real option"
  | Clear
  | WebVital vitals_metric
  | ResourceEntry resource_entry
  | LoAFEntry loaf_entry
  | LongTaskEntry longtask_entry
  | APICall call_data
  | QueryEvent query_event real real

fun pm_step :: "perf_monitor \<Rightarrow> pm_op \<Rightarrow> perf_monitor" where
  "pm_step s (Initialize rs fs) = pm_initialize rs fs s"
| "pm_step s (InitializeQueryClient qs) = initializeQueryClient qs s"
| "pm_step s (MarkHydrationStart now) = markHydrationStart now s"
| "pm_step s (MarkHydrationEnd now n) = markHydrationEnd now n s"
| "pm_step s Clear = pm_clear s"
| "pm_step s (WebVital metric) = onWebVital metric s"
| "pm_step s (ResourceEntry e) = s\<lparr>resourceMonitor := handleResourceEntry e (resourceMonitor s)\<rparr>"
| "pm_step s (LoAFEntry e) = s\<lparr>loafMonitor := handleLoAFEntry e (loafMonitor s)\<rparr>"
| "pm_step s (LongTaskEntry e) = s\<lparr>loafMonitor := handleLongTaskEntry e (loafMonitor s)\<rparr>"
| "pm_step s (APICall cd) = s\<lparr>apiMonitor := recordAPICall cd (apiMonitor s)\<rparr>"
| "pm_step s (QueryEvent ev now1 now2) =
     s\<lparr>queryMonitor := handleQueryEvent ev now1 now2 (queryMonitor s)\<rparr>"

definition pm_run :: "perf_monitor \<Rightarrow> pm_op list \<Rightarrow> perf_monitor" where
  "pm_run s ops = foldl pm_step s ops"

section \<open>Runs of a collector\<close>

text \<open>The resource monitor after the platform has delivered the entries \<open>es\<close> in order.\<close>

definition resource_run :: "resource_monitor \<Rightarrow> resource_entry list \<Rightarrow> resource_monitor" where
  "resource_run m es = foldl (\<lambda>m e. handleResourceEntry e m) m es"

section \<open>The specification's statistics\<close>

text \<open>
  The specification's mean compression ratio: over the records whose ratio is defined,
  0 when there is none.
\<close>

definition spec_averageCompressionRatio :: "resource_monitor \<Rightarrow> real" where
  "spec_averageCompressionRatio m =
     (let ratios = map the (filter (\<lambda>r. r \<noteq> None) (map r_compressionRatio (resources m)))
      in if ratios = [] then 0 else sum_list ratios / real (length ratios))"

text \<open>
  The empty-state values: query statistics with every count and rate 0 and both lists
  empty, and the snapshot of a monitor's identity on a page with every log empty, every
  count and rate 0, no hydration record and no query statistics.
\<close>

definition empty_query_stats :: query_cache_stats where
  "empty_query_stats =
     \<lparr>st_totalQueries = 0, st_activeQueries = 0, st_staleQueries = 0, st_erroredQueries = 0,
      st_averageFetchDuration = 0, st_cacheHitRate = 0, st_slowestQueries = [],
      st_mostFrequentQueries = []\<rparr>"

definition empty_session :: "page_env \<Rightarrow> perf_monitor \<Rightarrow> performance_session" where
  "empty_session env s =
     \<lparr>s_sessionId = sessionId s, s_url = env_href env, s_timestamp = sessionStartTime s,
      s_userAgent = env_userAgent env, s_framework = pm_framework s, s_webVitals = [],
      s_navigation = getNavigationMetric env, s_hydration = None, s_resources = [],
      s_longFrames = [], s_apiCalls = [], s_queryCache = None,
      s_summary =
        \<lparr>sum_totalResources = 0, sum_blockingResources = 0, sum_totalTransferSize = 0,
         sum_averageCompressionRatio = 0, sum_apiCallCount = 0, sum_averageApiLatency = 0,
         sum_longFrameCount = 0, sum_totalBlockingTime = 0, sum_queryCount = None,
         sum_queryCacheHitRate = None, sum_averageQueryDuration = None\<rparr>\<rparr>"

text \<open>The same snapshot with empty query statistics present.\<close>

definition empty_session_with_queries :: "page_env \<Rightarrow> perf_monitor \<Rightarrow> performance_session" where
  "empty_session_with_queries env s =
     (empty_session env s)
       \<lparr>s_queryCache := Some empty_query_stats,
        s_summary := (s_summary (empty_session env s))
          \<lparr>sum_queryCount := Some 0, sum_queryCacheHitRate := Some 0,
           sum_averageQueryDuration := Some 0\<rparr>\<rparr>"

text \<open>
  The specification's top-k selection of a log \<open>xs\<close> by a field \<open>f\<close>: \<open>out\<close> holds
  \<open>k\<close> records of the log (all of them when the log has fewer), in descending order of
  the field; no record left out has a greater field than one taken; and among the records
  with one and the same field value those taken are the first of the log, in the log's
  order.
\<close>

definition is_top_k :: "('a \<Rightarrow> real) \<Rightarrow> nat \<Rightarrow> 'a list \<Rightarrow> 'a list \<Rightarrow> bool" where
  "is_top_k f k xs out \<longleftrightarrow>
     length out = min k (length xs)
     \<and> mset out \<subseteq># mset xs
     \<and> sorted_wrt (\<lambda>a b. f a \<ge> f b) out
     \<and> (\<forall>a \<in> set out. \<forall>b \<in># mset xs - mset out. f b \<le> f a)
     \<and> (\<forall>d. prefix (filter (\<lambda>x. f x = d) out) (filter (\<lambda>x. f x = d) xs))"

section \<open>Relations between two states of a log\<close>

text \<open>
  A stored call \<open>new\<close> is the stored call \<open>old\<close> with no flag taken back: the data are
  the same, and each flag that was true is true.
\<close>

definition api_call_kept :: "api_call \<Rightarrow> api_call \<Rightarrow> bool" where
  "api_call_kept old new \<longleftrightarrow>
     call_data.truncate new = call_data.truncate old
     \<and> (truthy (c_blockedLCP old) \<longrightarrow> truthy (c_blockedLCP new))
     \<and> (truthy (c_blockedINP old) \<longrightarrow> truthy (c_blockedINP new))"

definition api_flags_kept :: "api_call list \<Rightarrow> api_call list \<Rightarrow> bool" where
  "api_flags_kept old new \<longleftrightarrow>
     length old \<le> length new \<and> (\<forall>i < length old. api_call_kept (old ! i) (new ! i))"

definition query_metric_kept :: "query_metric \<Rightarrow> query_metric \<Rightarrow> bool" where
  "query_metric_kept old new \<longleftrightarrow>
     new\<lparr>q_blockedLCP := None, q_blockedINP := None\<rparr>
       = old\<lparr>q_blockedLCP := None, q_blockedINP := None\<rparr>
     \<and> (truthy (q_blockedLCP old) \<longrightarrow> truthy (q_blockedLCP new))
     \<and> (truthy (q_blockedINP old) \<longrightarrow> truthy (q_blockedINP new))"

definition query_flags_kept :: "query_metric list \<Rightarrow> query_metric list \<Rightarrow> bool" where
  "query_flags_kept old new \<longleftrightarrow>
     length old \<le> length new \<and> (\<forall>i < length old. query_metric_kept (old ! i) (new ! i))"

text \<open>
  Every stored call whose interval strictly contains the stored paint instant, or one of
  the stored interaction instants, carries the flag for it.
\<close>

definition api_complete :: "api_monitor \<Rightarrow> bool" where
  "api_complete m \<longleftrightarrow>
     (\<forall>c \<in> set (apiCalls m).
        (\<forall>t. api_lcpTime m = Some t \<and> c_startTime c < t \<and> t < c_startTime c + c_duration c
              \<longrightarrow> c_blockedLCP c = Some True)
        \<and> (\<forall>t \<in> fst ` set (api_inpEvents m).
              c_startTime c < t \<and> t < c_startTime c + c_duration c
              \<longrightarrow> c_blockedINP c = Some True))"

text \<open>
  The same for the query monitor, for the interval its correlation passes derive from the
  stored fields of a record with a fetch duration: from the data update minus the
  duration to the data update.
\<close>

definition query_complete :: "query_monitor \<Rightarrow> bool" where
  "query_complete m \<longleftrightarrow>
     (\<forall>r \<in> set (queryMetrics m). \<forall>d. q_fetchDuration r = Some d \<longrightarrow>
        (\<forall>t. qm_lcpTime m = Some t \<and> q_dataUpdatedAt r - d < t \<and> t < q_dataUpdatedAt r - d + d
              \<longrightarrow> q_blockedLCP r = Some True)
        \<and> (\<forall>t \<in> fst ` set (qm_inpEvents m).
              q_dataUpdatedAt r - d < t \<and> t < q_dataUpdatedAt r - d + d
              \<longrightarrow> q_blockedINP r = Some True))"

text \<open>
  An operation of the query monitor is timely when, if it is an 'updated' event for a
  query with a data update, the event is handled at the instant of that data update.
\<close>

fun timely :: "query_op \<Rightarrow> bool" where
  "timely (HandleQueryEvent ev now1 now2) =
     (case ev_query ev of
        None \<Rightarrow> True
      | Some q \<Rightarrow> ev_type ev = ''updated'' \<and> rq_dataUpdatedAt q > 0
                  \<longrightarrow> rq_dataUpdatedAt q = now2)"
| "timely op = True"

section \<open>The hydration record\<close>

text \<open>Without a hydration start there is no hydration record.\<close>

definition hydration_inv :: "perf_monitor \<Rightarrow> bool" where
  "hydration_inv s \<longleftrightarrow> (hydrationStartTime s = None \<longrightarrow> hydrationMetric s = None)"

section \<open>Concrete inputs\<close>

text \<open>The two calls of the paint scenario: 100 ms to 400 ms, and 500 ms to 550 ms.\<close>

definition call1 :: call_data where
  "call1 = \<lparr>c_url = ''/api/a'', c_method = ''GET'', c_startTime = 100, c_duration = 300,
            c_ttfb = 300, c_status = 200, c_size = 0\<rparr>"

definition call2 :: call_data where
  "call2 = \<lparr>c_url = ''/api/b'', c_method = ''GET'', c_startTime = 500, c_duration = 50,
            c_ttfb = 50, c_status = 200, c_size = 0\<rparr>"

text \<open>A stylesheet entry with the given decoded and encoded body sizes.\<close>

definition entry_sizes :: "real \<Rightarrow> real \<Rightarrow> resource_entry" where
  "entry_sizes decoded encoded =
     \<lparr>e_name = ''/app.css'', e_entryType = ''resource'', e_startTime = 10, e_duration = 20,
      e_initiatorType = ''link'', e_nextHopProtocol = ''h2'', e_renderBlockingStatus = None,
      e_fetchStart = 10, e_domainLookupStart = 10, e_domainLookupEnd = 10,
      e_connectStart = 10, e_connectEnd = 10, e_secureConnectionStart = 10,
      e_requestStart = 11, e_responseStart = 20, e_responseEnd = 30,
      e_transferSize = encoded + 300, e_encodedBodySize = encoded,
      e_decodedBodySize = decoded\<rparr>"

text \<open>A successful query with the given key, fetch start and last data update.\<close>

definition query_of :: "string \<Rightarrow> real option \<Rightarrow> real \<Rightarrow> raw_query" where
  "query_of key fetchStart updatedAt =
     \<lparr>rq_queryKey = KeyString key, rq_fetchStartTime = fetchStart, rq_status = StatusSuccess,
      rq_fetchStatus = Idle, rq_dataUpdatedAt = updatedAt, rq_errorUpdatedAt = 0,
      rq_cacheTime = None, rq_staleTime = None\<rparr>"

definition updated :: "raw_query \<Rightarrow> query_event" where
  "updated q = \<lparr>ev_type = ''updated'', ev_query = Some q\<rparr>"

text \<open>A log of two calls, the shorter one first, and a log of two resources.\<close>

definition two_calls :: api_monitor where
  "two_calls = api_run api_new [RecordAPICall call2, RecordAPICall call1]"

definition two_resources :: resource_monitor where
  "two_resources = resource_run resource_new [entry_sizes 0 20, entry_sizes 300 100]"

text \<open>
  A monitor holding the first call, flagged for the paint instant 250 ms, and a run that
  moves the paint instant, records the second call and reports an interaction.
\<close>

definition flagged_call :: api_monitor where
  "flagged_call = api_setLCPTime 250 (recordAPICall call1 api_new)"

definition later_ops :: "api_op list" where
  "later_ops = [SetLCPTime 600, RecordAPICall call2, RecordINPEvent 520]"

text \<open>
  The same for the query monitor: a query fetched from 100 ms to 400 ms, its data updated
  at 400 ms, observed with the paint instant 250 ms known.
\<close>

definition flagged_query :: query_monitor where
  "flagged_query =
     handleQueryEvent (updated (query_of ''todos'' (Some 100) 400)) 400 400
       (query_setLCPTime 250 query_new)"

definition later_query_ops :: "query_op list" where
  "later_query_ops = [QuerySetLCPTime 600, QueryRecordINPEvent 50]"

text \<open>
  Two runs of the query monitor with the paint instant 250 ms. In the first the instant is
  known when an 'updated' event arrives at 550 ms for a query whose fetch began at 500 ms
  and whose data were last updated at 270 ms. In the second an 'updated' event arrives at
  400 ms for a query whose fetch began at 100 ms and whose data were last updated at
  150 ms, and the instant is reported afterwards.
\<close>

definition instant_then_query :: query_monitor where
  "instant_then_query =
     query_run query_new
       [QuerySetLCPTime 250,
        HandleQueryEvent (updated (query_of ''todos'' (Some 500) 270)) 550 550]"

definition query_then_instant :: query_monitor where
  "query_then_instant =
     query_run query_new
       [HandleQueryEvent (updated (query_of ''todos'' (Some 100) 150)) 400 400,
        QuerySetLCPTime 250]"

text \<open>A page, and a run of a monitor in which hydration is never marked as started.\<close>

definition page0 :: page_env where
  "page0 = \<lparr>env_href = ''https://example.test/'', env_userAgent = ''agent'',
            env_navTiming = None, env_now = 1000\<rparr>"

definition no_start_ops :: "pm_op list" where
  "no_start_ops = [Initialize True True, APICall call1, MarkHydrationEnd 5 None]"

text \<open>
  Two monitors with a recorded call and a marked hydration; on the second the query
  client has been initialised and a query event observed.
\<close>

definition busy_monitor :: perf_monitor where
  "busy_monitor =
     pm_run (pm_new React ''session_1'' 0)
       [Initialize True True, APICall call1, MarkHydrationStart 1, MarkHydrationEnd 5 None]"

definition busy_query_monitor :: perf_monitor where
  "busy_query_monitor =
     pm_run (pm_new React ''session_1'' 0)
       [Initialize True True, InitializeQueryClient [], APICall call1,
        QueryEvent (updated (query_of ''todos'' (Some 100) 400)) 400 400]"

section \<open>Sums\<close>

lemma foldl_add_sum_list:
  fixes f :: "'a \<Rightarrow> 'b::monoid_add"
  shows "foldl (\<lambda>sum x. sum + f x) a xs = a + sum_list (map f xs)"
  by (induction xs arbitrary: a) (simp_all add: add.assoc)

lemma reduce_sum_sum_list: "reduce_sum f xs = sum_list (map f xs)"
  by (simp add: reduce_sum_def foldl_add_sum_list)

section \<open>Total blocking time\<close>

lemma getTotalBlockingTime_sum:
  "getTotalBlockingTime m = (\<Sum>frame \<leftarrow> frames m. max 0 (f_duration frame - 50))"
  by (simp add: getTotalBlockingTime_def Let_def foldl_add_sum_list)

text \<open>
  C6. \<^verbatim>\<open>getTotalBlockingTime\<close> is the sum over the stored frames of
  \<open>max 0 (duration - 50)\<close>. Overwriting the stored \<^verbatim>\<open>blockingDuration\<close> of every frame
  in any way leaves it unchanged. A frame that arrives on either ingestion path adds
  \<open>max 0 (duration - 50)\<close>; a single frame of 120 ms, with no blocking duration supplied
  by the platform, gives 70 ms on both paths.
\<close>

theorem C6_total_blocking_time:
  "getTotalBlockingTime m = (\<Sum>frame \<leftarrow> frames m. max 0 (f_duration frame - 50))
   \<and> getTotalBlockingTime (m\<lparr>frames := map (f_blockingDuration_update g) (frames m)\<rparr>)
       = getTotalBlockingTime m
   \<and> getTotalBlockingTime (handleLoAFEntry e m)
       = getTotalBlockingTime m + max 0 (le_duration e - 50)
   \<and> getTotalBlockingTime (handleLongTaskEntry t m)
       = getTotalBlockingTime m + max 0 (lt_duration t - 50)
   \<and> getTotalBlockingTime
         (handleLoAFEntry (e\<lparr>le_duration := 120, le_blockingDuration := None\<rparr>) loaf_new) = 70
   \<and> getTotalBlockingTime (handleLongTaskEntry (t\<lparr>lt_duration := 120\<rparr>) loaf_new) = 70"
  by (simp add: getTotalBlockingTime_sum handleLoAFEntry_def handleLongTaskEntry_def
      loaf_new_def Let_def comp_def)

section \<open>The API monitor: what each operation leaves alone\<close>

lemma api_setLCPTime_frame [simp]:
  "api_lcpTime (api_setLCPTime t m) = Some t"
  "api_inpEvents (api_setLCPTime t m) = api_inpEvents m"
  "pendingRequests (api_setLCPTime t m) = pendingRequests m"
  "api_initialized (api_setLCPTime t m) = api_initialized m"
  by (simp_all add: api_setLCPTime_def api_correlateWithLCP_def)

lemma recordAPICall_frame [simp]:
  "api_lcpTime (recordAPICall cd m) = api_lcpTime m"
  "api_inpEvents (recordAPICall cd m) = api_inpEvents m"
  "pendingRequests (recordAPICall cd m) = pendingRequests m"
  "api_initialized (recordAPICall cd m) = api_initialized m"
  by (simp_all add: recordAPICall_def Let_def)

lemma api_setLCPTime_calls:
  "apiCalls (api_setLCPTime t m) =
     map (\<lambda>call. if truthy (c_blockedLCP call) then call
                 else call\<lparr>c_blockedLCP :=
                        Some (c_startTime call < t \<and> t < c_startTime call + c_duration call)\<rparr>)
       (apiCalls m)"
  by (auto simp: api_setLCPTime_def api_correlateWithLCP_def api_checkLCPBlocking_def Let_def)

section \<open>Mean compression ratio\<close>

lemma resources_run: "resources (resource_run m es) = resources m @ map convertToResourceTiming es"
  unfolding resource_run_def
  by (induction es arbitrary: m) (simp_all add: handleResourceEntry_def Let_def)

lemma ratio_convert:
  "r_compressionRatio (convertToResourceTiming e) =
     (if e_encodedBodySize e > 0 then Some (e_decodedBodySize e / e_encodedBodySize e) else None)"
  by (simp add: convertToResourceTiming_def Let_def)

lemma eligible_ratios:
  "map the (filter (\<lambda>r. r \<noteq> None \<and> the r > 0)
              (map r_compressionRatio (map convertToResourceTiming es)))
   = map (\<lambda>e. e_decodedBodySize e / e_encodedBodySize e)
       (filter (\<lambda>e. e_encodedBodySize e > 0 \<and> e_decodedBodySize e > 0) es)"
  by (induction es) (auto simp: ratio_convert zero_less_divide_iff)

text \<open>
  C4 (as amended). \<^verbatim>\<open>getAverageCompressionRatio\<close> is the arithmetic mean of
  decoded size / encoded size over exactly the recorded resources whose encoded size and
  decoded size are both greater than 0 (the ratio is defined and positive), and is 0 when
  there is no such resource. Resources with ratios 3 and 1 and a third one with encoded
  size 0 give 2.
\<close>

theorem C4_average_compression_ratio:
  "getAverageCompressionRatio (resource_run resource_new es) =
     (let eligible = filter (\<lambda>e. e_encodedBodySize e > 0 \<and> e_decodedBodySize e > 0) es
      in if eligible = [] then 0
         else (\<Sum>e \<leftarrow> eligible. e_decodedBodySize e / e_encodedBodySize e)
                / real (length eligible))
   \<and> getAverageCompressionRatio
        (resource_run resource_new [entry_sizes 300 100, entry_sizes 100 100, entry_sizes 50 0]) = 2"
proof
  have res: "resources (resource_run resource_new es) = map convertToResourceTiming es"
    by (simp add: resources_run resource_new_def)
  show "getAverageCompressionRatio (resource_run resource_new es) =
     (let eligible = filter (\<lambda>e. e_encodedBodySize e > 0 \<and> e_decodedBodySize e > 0) es
      in if eligible = [] then 0
         else (\<Sum>e \<leftarrow> eligible. e_decodedBodySize e / e_encodedBodySize e)
                / real (length eligible))"
    unfolding getAverageCompressionRatio_def res eligible_ratios reduce_sum_sum_list Let_def
    by (simp add: comp_def)
next
  show "getAverageCompressionRatio
        (resource_run resource_new [entry_sizes 300 100, entry_sizes 100 100, entry_sizes 50 0]) = 2"
    by (simp add: getAverageCompressionRatio_def resources_run resource_new_def Let_def
        reduce_sum_sum_list ratio_convert entry_sizes_def)
qed

text \<open>
  A resource with a defined ratio of 0 (an empty body of 20 encoded bytes) is left out of
  the mean: with a second resource of ratio 3 the monitor returns 3, the mean over the
  defined ratios is 3/2.
\<close>

theorem C4_counterexample:
  "getAverageCompressionRatio (resource_run resource_new [entry_sizes 300 100, entry_sizes 0 20])
   \<noteq> spec_averageCompressionRatio
        (resource_run resource_new [entry_sizes 300 100, entry_sizes 0 20])"
  by (simp add: getAverageCompressionRatio_def spec_averageCompressionRatio_def resources_run
      resource_new_def Let_def reduce_sum_sum_list ratio_convert entry_sizes_def)

section \<open>Cache-hit rate\<close>

lemma sum_alist_update:
  fixes g :: "'v \<Rightarrow> nat"
  shows "(\<Sum>p \<leftarrow> AList.update k v al. g (snd p)) + (case map_of al k of None \<Rightarrow> 0 | Some w \<Rightarrow> g w)
         = (\<Sum>p \<leftarrow> al. g (snd p)) + g v"
  by (induction al) auto

lemma totalExecutions_sum: "totalExecutions m = (\<Sum>p \<leftarrow> queryExecutions m. ex_count (snd p))"
  by (simp add: totalExecutions_def reduce_sum_sum_list comp_def)

lemma handleQueryEvent_executions:
  "queryExecutions (handleQueryEvent (updated q) now1 now2 m) =
     AList.update (serializeQueryKey (rq_queryKey q))
       \<lparr>ex_count = (case map_of (queryExecutions m) (serializeQueryKey (rq_queryKey q)) of
                      None \<Rightarrow> 0 | Some e \<Rightarrow> ex_count e) + 1,
        ex_totalDuration =
          (case map_of (queryExecutions m) (serializeQueryKey (rq_queryKey q)) of
             None \<Rightarrow> 0 | Some e \<Rightarrow> ex_totalDuration e)
          + num_or (if rq_dataUpdatedAt q > 0
                    then Some (now2 - num_or (rq_fetchStartTime q) now1) else None) 0\<rparr>
       (queryExecutions m)"
  by (simp add: handleQueryEvent_def updated_def Let_def split: option.splits)

lemma sum_alist_bump:
  fixes g :: "'v \<Rightarrow> nat"
  assumes "g v = (case map_of al k of None \<Rightarrow> 0 | Some w \<Rightarrow> g w) + 1"
  shows "(\<Sum>p \<leftarrow> AList.update k v al. g (snd p)) = (\<Sum>p \<leftarrow> al. g (snd p)) + 1"
  using sum_alist_update [of g k v al] assms by simp

lemma handleQueryEvent_total:
  "totalExecutions (handleQueryEvent (updated q) now1 now2 m) = totalExecutions m + 1"
  unfolding totalExecutions_sum handleQueryEvent_executions
  by (rule sum_alist_bump) (simp split: option.splits)

lemma handleQueryEvent_length:
  "length (queryMetrics (handleQueryEvent (updated q) now1 now2 m)) = length (queryMetrics m) + 1"
  by (simp add: handleQueryEvent_def updated_def Let_def)

text \<open>
  C5. The cache-hit rate of \<^verbatim>\<open>getQueryCacheStats\<close> is \<open>(E - N) / E\<close>, and 0 when
  \<open>E = 0\<close>, where \<open>N\<close> is the number of stored query records and \<open>E\<close> the sum over
  the keys of the per-key execution counter. An 'updated' event raises the counter of its
  key by one (from 0 for a new key), hence \<open>E\<close> by one, and stores one record.
\<close>

theorem C5_cache_hit_rate:
  "st_cacheHitRate (getQueryCacheStats now m) =
     (if totalExecutions m = 0 then 0
      else (real (totalExecutions m) - real (length (queryMetrics m))) / real (totalExecutions m))
   \<and> totalExecutions m = (\<Sum>(key, stat) \<leftarrow> queryExecutions m. ex_count stat)
   \<and> map_option ex_count
        (map_of (queryExecutions (handleQueryEvent (updated q) now1 now2 m))
           (serializeQueryKey (rq_queryKey q)))
      = Some (case map_of (queryExecutions m) (serializeQueryKey (rq_queryKey q)) of
                None \<Rightarrow> 1 | Some e \<Rightarrow> ex_count e + 1)
   \<and> totalExecutions (handleQueryEvent (updated q) now1 now2 m) = totalExecutions m + 1
   \<and> length (queryMetrics (handleQueryEvent (updated q) now1 now2 m))
      = length (queryMetrics m) + 1"
  apply (intro conjI)
      apply (simp add: getQueryCacheStats_def Let_def)
     apply (simp add: totalExecutions_sum case_prod_unfold)
    apply (simp add: handleQueryEvent_executions update_conv' split: option.splits)
   apply (rule handleQueryEvent_total)
  apply (rule handleQueryEvent_length)
  done

section \<open>Clearing a monitor\<close>

lemma num_or_simps [simp]:
  "num_or (Some v) 0 = v"
  "num_or None d = d"
  by (simp_all add: num_or_def)

lemma handleQueryEvent_flags:
  "map (\<lambda>r. (q_blockedLCP r, q_blockedINP r))
     (queryMetrics (handleQueryEvent (updated rq) now1 now2 m)) =
   map (\<lambda>r. (q_blockedLCP r, q_blockedINP r)) (queryMetrics m) @
     (let startTime = num_or (rq_fetchStartTime rq) now1;
          duration = (if rq_dataUpdatedAt rq > 0 then now2 - startTime else 0)
      in [(Some (query_checkLCPBlocking m startTime duration),
           Some (query_checkINPBlocking m startTime duration))])"
  by (simp add: handleQueryEvent_def updated_def Let_def
      query_checkLCPBlocking_def query_checkINPBlocking_def split: option.splits)

lemma api_clear_frame [simp]:
  "apiCalls (api_clear m) = []"
  "pendingRequests (api_clear m) = []"
  "api_lcpTime (api_clear m) = api_lcpTime m"
  "api_inpEvents (api_clear m) = api_inpEvents m"
  "api_initialized (api_clear m) = api_initialized m"
  by (simp_all add: api_clear_def)

lemma query_clear_frame [simp]:
  "queryMetrics (query_clear m) = []"
  "queryExecutions (query_clear m) = []"
  "qm_lcpTime (query_clear m) = qm_lcpTime m"
  "qm_inpEvents (query_clear m) = qm_inpEvents m"
  "qm_initialized (query_clear m) = qm_initialized m"
  by (simp_all add: query_clear_def)

lemma api_check_cong:
  "api_lcpTime m' = api_lcpTime m \<Longrightarrow> api_checkLCPBlocking m' = api_checkLCPBlocking m"
  "api_inpEvents m' = api_inpEvents m \<Longrightarrow> api_checkINPBlocking m' = api_checkINPBlocking m"
  by (auto simp: api_checkLCPBlocking_def api_checkINPBlocking_def fun_eq_iff)

lemma query_check_cong:
  "qm_lcpTime m' = qm_lcpTime m \<Longrightarrow> query_checkLCPBlocking m' = query_checkLCPBlocking m"
  "qm_inpEvents m' = qm_inpEvents m \<Longrightarrow> query_checkINPBlocking m' = query_checkINPBlocking m"
  by (auto simp: query_checkLCPBlocking_def query_checkINPBlocking_def fun_eq_iff)

text \<open>
  C10. \<^verbatim>\<open>clear\<close> on the API monitor empties the call log and the pending-request map and
  leaves the stored paint instant and the interaction instants as they were, so the call
  recorded next is flagged by the overlap checks against the instants held before the
  \<^verbatim>\<open>clear\<close>: with the paint instant 250 ms reported before it, the call from 100 ms to
  400 ms recorded after it is flagged at once. Likewise \<^verbatim>\<open>clear\<close> on the query monitor
  empties its log and its execution counters and keeps its instants, and the record of
  the next 'updated' event is flagged against them.
\<close>

theorem C10_clear_keeps_instants:
  "apiCalls (api_clear m) = [] \<and> pendingRequests (api_clear m) = []
   \<and> api_lcpTime (api_clear m) = api_lcpTime m
   \<and> api_inpEvents (api_clear m) = api_inpEvents m
   \<and> apiCalls (recordAPICall cd (api_clear m)) =
        [call_data.extend cd
           (api_call.fields
              (Some (api_checkLCPBlocking m (c_startTime cd) (c_duration cd)))
              (Some (api_checkINPBlocking m (c_startTime cd) (c_duration cd)))
              None)]
   \<and> map c_blockedLCP
        (apiCalls (recordAPICall call1 (api_clear (api_setLCPTime 250 api_new)))) = [Some True]
   \<and> queryMetrics (query_clear q) = [] \<and> queryExecutions (query_clear q) = []
   \<and> qm_lcpTime (query_clear q) = qm_lcpTime q
   \<and> qm_inpEvents (query_clear q) = qm_inpEvents q
   \<and> map (\<lambda>r. (q_blockedLCP r, q_blockedINP r))
        (queryMetrics (handleQueryEvent (updated rq) now1 now2 (query_clear q))) =
        (let startTime = num_or (rq_fetchStartTime rq) now1;
             duration = (if rq_dataUpdatedAt rq > 0 then now2 - startTime else 0)
         in [(Some (query_checkLCPBlocking q startTime duration),
              Some (query_checkINPBlocking q startTime duration))])"
  apply (intro conjI)
            apply (simp_all add: recordAPICall_def Let_def api_check_cong [of "api_clear m" m])
   apply (simp add: api_clear_def api_setLCPTime_def api_correlateWithLCP_def api_new_def
      api_checkLCPBlocking_def call1_def call_data.extend_def api_call.fields_def)
  apply (simp add: handleQueryEvent_flags Let_def query_check_cong [of "query_clear q" q])
  done

section \<open>Top-k selection\<close>

lemma js_insert_desc_app:
  "js_insert (\<lambda>a b. f b - f a) x ys = insort_key (\<lambda>x. - f x) x ys"
  by (induction ys) simp_all

lemma js_insert_desc: "js_insert (\<lambda>a b. f b - f a) = insort_key (\<lambda>x. - f x)"
  by (intro ext) (rule js_insert_desc_app)

lemma js_sort_desc: "js_sort (\<lambda>a b. f b - f a) xs = sort_key (\<lambda>x. - f x) xs"
  by (simp add: js_sort_def sort_key_def js_insert_desc)

lemma sorted_desc:
  fixes f :: "'a \<Rightarrow> real"
  shows "sorted_wrt (\<lambda>a b. f a \<ge> f b) (sort_key (\<lambda>x. - f x) xs)"
  (is "sorted_wrt _ ?s")
proof -
  have "sorted (map (\<lambda>x. - f x) ?s)" by (rule sorted_sort_key)
  then show ?thesis by (simp add: sorted_map)
qed

lemma stable_desc:
  fixes f :: "'a \<Rightarrow> real"
  shows "filter (\<lambda>x. f x = d) (sort_key (\<lambda>x. - f x) xs) = filter (\<lambda>x. f x = d) xs"
  using sort_key_stable [of "\<lambda>x. - f x" "- d" xs] by simp

lemma prefix_filter_take: "prefix (filter P (take n xs)) (filter P xs)"
proof -
  have "filter P xs = filter P (take n xs) @ filter P (drop n xs)"
    by (metis append_take_drop_id filter_append)
  then show ?thesis by (simp add: prefix_def)
qed

lemma is_top_k_take_sort:
  "is_top_k f k xs (take k (sort_key (\<lambda>x. - f x) xs))"
proof -
  let ?s = "sort_key (\<lambda>x. - f x) xs"
  have split: "?s = take k ?s @ drop k ?s" by simp
  have ms: "mset xs = mset (take k ?s) + mset (drop k ?s)"
    by (metis split mset_append mset_sort)
  have srt: "sorted_wrt (\<lambda>a b. f a \<ge> f b) (take k ?s @ drop k ?s)"
    using sorted_desc [of f xs] by simp
  have "length (take k ?s) = min k (length xs)" by simp
  moreover have "mset (take k ?s) \<subseteq># mset xs" by (simp add: ms)
  moreover have "sorted_wrt (\<lambda>a b. f a \<ge> f b) (take k ?s)"
    using srt unfolding sorted_wrt_append by blast
  moreover have "\<forall>a \<in> set (take k ?s). \<forall>b \<in># mset xs - mset (take k ?s). f b \<le> f a"
    using srt unfolding sorted_wrt_append by (simp add: ms)
  moreover have "\<forall>d. prefix (filter (\<lambda>x. f x = d) (take k ?s)) (filter (\<lambda>x. f x = d) xs)"
  proof
    fix d
    show "prefix (filter (\<lambda>x. f x = d) (take k ?s)) (filter (\<lambda>x. f x = d) xs)"
      using prefix_filter_take [of "\<lambda>x. f x = d" k ?s] by (simp add: stable_desc)
  qed
  ultimately show ?thesis unfolding is_top_k_def by blast
qed

lemma top_k_slice:
  "0 \<le> k \<Longrightarrow> is_top_k f (nat k) xs (js_slice0 (js_sort (\<lambda>a b. f b - f a) xs) k)"
  by (simp add: js_slice0_def js_sort_desc is_top_k_take_sort)

lemma top_k_whole:
  "int (length xs) \<le> k \<Longrightarrow> js_slice0 (js_sort (\<lambda>a b. f b - f a) xs) k = sort_key (\<lambda>x. - f x) xs"
  by (simp add: js_slice0_def js_sort_desc)

text \<open>
  C7. For a count \<open>k \<ge> 0\<close> each of \<^verbatim>\<open>getSlowestCalls\<close>, \<^verbatim>\<open>getLargestResources\<close> and
  \<^verbatim>\<open>getSlowestResources\<close> returns the top \<open>k\<close> of its log by duration, transfer size
  and duration: \<open>k\<close> records (the whole log if it is shorter) in descending order of the
  field, ties in log order; without a count it returns the top 10. For \<open>k\<close> greater than
  the length of the log the result holds the records of the whole log and is the top-k
  selection of the size of the log, that is the whole log, sorted. The call leaves the
  monitor as it was, and a second call on the monitor it leaves returns the same list.
\<close>

theorem C7_top_k:
  "(0 \<le> k \<longrightarrow>
      is_top_k c_duration (nat k) (apiCalls m) (fst (getSlowestCalls (Some k) m))
      \<and> is_top_k r_transferSize (nat k) (resources r) (fst (getLargestResources (Some k) r))
      \<and> is_top_k r_duration (nat k) (resources r) (fst (getSlowestResources (Some k) r)))
   \<and> is_top_k c_duration 10 (apiCalls m) (fst (getSlowestCalls None m))
   \<and> is_top_k r_transferSize 10 (resources r) (fst (getLargestResources None r))
   \<and> is_top_k r_duration 10 (resources r) (fst (getSlowestResources None r))
   \<and> (int (length (apiCalls m)) < k \<longrightarrow>
        mset (fst (getSlowestCalls (Some k) m)) = mset (apiCalls m)
        \<and> is_top_k c_duration (length (apiCalls m)) (apiCalls m)
            (fst (getSlowestCalls (Some k) m)))
   \<and> (int (length (resources r)) < k \<longrightarrow>
        mset (fst (getLargestResources (Some k) r)) = mset (resources r)
        \<and> is_top_k r_transferSize (length (resources r)) (resources r)
            (fst (getLargestResources (Some k) r))
        \<and> mset (fst (getSlowestResources (Some k) r)) = mset (resources r)
        \<and> is_top_k r_duration (length (resources r)) (resources r)
            (fst (getSlowestResources (Some k) r)))
   \<and> snd (getSlowestCalls cnt m) = m
   \<and> snd (getLargestResources cnt r) = r
   \<and> snd (getSlowestResources cnt r) = r
   \<and> fst (getSlowestCalls cnt (snd (getSlowestCalls cnt m))) = fst (getSlowestCalls cnt m)
   \<and> fst (getLargestResources cnt (snd (getLargestResources cnt r)))
       = fst (getLargestResources cnt r)
   \<and> fst (getSlowestResources cnt (snd (getSlowestResources cnt r)))
       = fst (getSlowestResources cnt r)"
  using top_k_slice [of k c_duration "apiCalls m"]
    top_k_slice [of k r_transferSize "resources r"]
    top_k_slice [of k r_duration "resources r"]
    top_k_slice [of 10 c_duration "apiCalls m"]
    top_k_slice [of 10 r_transferSize "resources r"]
    top_k_slice [of 10 r_duration "resources r"]
    is_top_k_take_sort [of c_duration "length (apiCalls m)" "apiCalls m"]
    is_top_k_take_sort [of r_transferSize "length (resources r)" "resources r"]
    is_top_k_take_sort [of r_duration "length (resources r)" "resources r"]
  by (simp add: getSlowestCalls_def getLargestResources_def getSlowestResources_def top_k_whole)

lemma two_calls_log: "map c_duration (apiCalls two_calls) = [50, 300]"
  by (simp add: two_calls_def api_run_def recordAPICall_def api_new_def call1_def call2_def
      call_data.extend_def api_call.fields_def)

lemma two_resources_log: "map r_transferSize (resources two_resources) = [320, 400]"
  by (simp add: two_resources_def resources_run resource_new_def convertToResourceTiming_def
      entry_sizes_def)

theorem C7_top_k_witness:
  "is_top_k c_duration 1 (apiCalls two_calls) (fst (getSlowestCalls (Some 1) two_calls))
   \<and> is_top_k r_transferSize 1 (resources two_resources)
        (fst (getLargestResources (Some 1) two_resources))
   \<and> is_top_k r_duration 1 (resources two_resources)
        (fst (getSlowestResources (Some 1) two_resources))
   \<and> is_top_k c_duration 2 (apiCalls two_calls) (fst (getSlowestCalls (Some 3) two_calls))
   \<and> is_top_k r_transferSize 2 (resources two_resources)
        (fst (getLargestResources (Some 3) two_resources))
   \<and> is_top_k r_duration 2 (resources two_resources)
        (fst (getSlowestResources (Some 3) two_resources))"
proof -
  have la: "length (apiCalls two_calls) = 2"
    using two_calls_log by (metis length_map length_Cons list.size(3) numeral_2_eq_2)
  have lr: "length (resources two_resources) = 2"
    using two_resources_log by (metis length_map length_Cons list.size(3) numeral_2_eq_2)
  show ?thesis
    using C7_top_k [of 1 two_calls two_resources] C7_top_k [of 3 two_calls two_resources]
    by (simp add: la lr)
qed

section \<open>Flags are never taken back\<close>

lemma api_call_kept_refl [simp]: "api_call_kept c c"
  by (simp add: api_call_kept_def)

lemma api_call_kept_trans: "api_call_kept a b \<Longrightarrow> api_call_kept b c \<Longrightarrow> api_call_kept a c"
  by (simp add: api_call_kept_def)

lemma api_flags_kept_refl [simp]: "api_flags_kept xs xs"
  by (simp add: api_flags_kept_def)

lemma api_flags_kept_trans:
  "api_flags_kept xs ys \<Longrightarrow> api_flags_kept ys zs \<Longrightarrow> api_flags_kept xs zs"
  unfolding api_flags_kept_def
  by (meson api_call_kept_trans le_trans less_le_trans)

lemma api_flags_kept_append: "api_flags_kept xs (xs @ ys)"
  by (simp add: api_flags_kept_def nth_append)

lemma api_flags_kept_map: "(\<And>c. api_call_kept c (g c)) \<Longrightarrow> api_flags_kept xs (map g xs)"
  by (simp add: api_flags_kept_def)

lemma api_correlateWithLCP_kept: "api_flags_kept (apiCalls m) (apiCalls (api_correlateWithLCP m))"
  by (cases "api_lcpTime m")
    (auto simp: api_correlateWithLCP_def api_call_kept_def call_data.truncate_def
      intro!: api_flags_kept_map)

lemma api_correlateWithINP_kept: "api_flags_kept (apiCalls m) (apiCalls (api_correlateWithINP m))"
  by (auto simp: api_correlateWithINP_def api_call_kept_def call_data.truncate_def
      intro!: api_flags_kept_map)

lemma recordAPICall_calls:
  "apiCalls (recordAPICall cd m) =
     apiCalls m @ [call_data.extend cd
           (api_call.fields
              (Some (api_checkLCPBlocking m (c_startTime cd) (c_duration cd)))
              (Some (api_checkINPBlocking m (c_startTime cd) (c_duration cd)))
              None)]"
  by (simp add: recordAPICall_def Let_def)

lemma api_step_kept: "op \<noteq> ApiClear \<Longrightarrow> api_flags_kept (apiCalls m) (apiCalls (api_step m op))"
proof (cases op)
  case (RecordAPICall cd)
  then show ?thesis by (simp add: recordAPICall_calls api_flags_kept_append)
next
  case (SetLCPTime t)
  then show ?thesis
    using api_correlateWithLCP_kept [of "m\<lparr>api_lcpTime := Some t\<rparr>"]
    by (simp add: api_setLCPTime_def)
next
  case (RecordINPEvent t)
  then show ?thesis
    using api_correlateWithINP_kept [of "m\<lparr>api_inpEvents := AList.update t True (api_inpEvents m)\<rparr>"]
    by (simp add: api_recordINPEvent_def)
next
  case (FetchIssued rid u me st)
  then show ?thesis by (simp add: fetch_issued_def)
next
  case (FetchSettled rid u me st en status sz)
  then show ?thesis
    by (simp add: fetch_settled_def Let_def recordAPICall_calls api_flags_kept_append)
qed simp

lemma api_run_kept:
  "ApiClear \<notin> set ops \<Longrightarrow> api_flags_kept (apiCalls m) (apiCalls (api_run m ops))"
proof (induction ops arbitrary: m)
  case Nil
  then show ?case by (simp add: api_run_def)
next
  case (Cons op ops)
  have "api_flags_kept (apiCalls m) (apiCalls (api_step m op))"
    using Cons.prems by (intro api_step_kept) auto
  moreover have "api_flags_kept (apiCalls (api_step m op)) (apiCalls (api_run (api_step m op) ops))"
    using Cons.prems by (intro Cons.IH) auto
  ultimately show ?case
    using api_flags_kept_trans by (fastforce simp: api_run_def)
qed

lemma query_metric_kept_refl [simp]: "query_metric_kept c c"
  by (simp add: query_metric_kept_def)

lemma query_metric_kept_trans:
  "query_metric_kept a b \<Longrightarrow> query_metric_kept b c \<Longrightarrow> query_metric_kept a c"
  by (simp add: query_metric_kept_def)

lemma query_flags_kept_refl [simp]: "query_flags_kept xs xs"
  by (simp add: query_flags_kept_def)

lemma query_flags_kept_trans:
  "query_flags_kept xs ys \<Longrightarrow> query_flags_kept ys zs \<Longrightarrow> query_flags_kept xs zs"
  unfolding query_flags_kept_def
  by (meson query_metric_kept_trans le_trans less_le_trans)

lemma query_flags_kept_append: "query_flags_kept xs (xs @ ys)"
  by (simp add: query_flags_kept_def nth_append)

lemma query_flags_kept_map: "(\<And>c. query_metric_kept c (g c)) \<Longrightarrow> query_flags_kept xs (map g xs)"
  by (simp add: query_flags_kept_def)

lemma query_correlateWithLCP_kept:
  "query_flags_kept (queryMetrics m) (queryMetrics (query_correlateWithLCP m))"
  by (cases "qm_lcpTime m")
    (auto simp: query_correlateWithLCP_def query_metric_kept_def intro!: query_flags_kept_map)

lemma query_correlateWithINP_kept:
  "query_flags_kept (queryMetrics m) (queryMetrics (query_correlateWithINP m))"
  by (auto simp: query_correlateWithINP_def query_metric_kept_def intro!: query_flags_kept_map)

lemma handleQueryEvent_kept:
  "query_flags_kept (queryMetrics m) (queryMetrics (handleQueryEvent ev now1 now2 m))"
  by (simp add: handleQueryEvent_def Let_def query_flags_kept_append split: option.splits)

lemma query_step_kept:
  "op \<noteq> QueryClear \<Longrightarrow> query_flags_kept (queryMetrics m) (queryMetrics (query_step m op))"
proof (cases op)
  case (HandleQueryEvent ev now1 now2)
  then show ?thesis by (simp add: handleQueryEvent_kept)
next
  case (QuerySetLCPTime t)
  then show ?thesis
    using query_correlateWithLCP_kept [of "m\<lparr>qm_lcpTime := Some t\<rparr>"]
    by (simp add: query_setLCPTime_def)
next
  case (QueryRecordINPEvent t)
  then show ?thesis
    using query_correlateWithINP_kept [of "m\<lparr>qm_inpEvents := AList.update t True (qm_inpEvents m)\<rparr>"]
    by (simp add: query_recordINPEvent_def)
next
  case (QueryInitialize qs)
  then show ?thesis
    by (simp add: query_initialize_def snapshotCurrentQueries_def query_flags_kept_append)
next
  case QueryDisconnect
  then show ?thesis by (simp add: query_disconnect_def)
qed simp

lemma query_run_kept:
  "QueryClear \<notin> set ops \<Longrightarrow> query_flags_kept (queryMetrics m) (queryMetrics (query_run m ops))"
proof (induction ops arbitrary: m)
  case Nil
  then show ?case by (simp add: query_run_def)
next
  case (Cons op ops)
  have "query_flags_kept (queryMetrics m) (queryMetrics (query_step m op))"
    using Cons.prems by (intro query_step_kept) auto
  moreover have "query_flags_kept (queryMetrics (query_step m op))
                   (queryMetrics (query_run (query_step m op) ops))"
    using Cons.prems by (intro Cons.IH) auto
  ultimately show ?case
    using query_flags_kept_trans by (fastforce simp: query_run_def)
qed

text \<open>
  C2. Over any run of operations of the API monitor other than \<^verbatim>\<open>clear\<close> (recording a
  call, a fetch being issued or settling, \<^verbatim>\<open>setLCPTime\<close>, \<^verbatim>\<open>recordINPEvent\<close>) every call
  stored before the run is still stored at its position, with the same data, and each of
  its two flags that was true is true; \<^verbatim>\<open>clear\<close> discards the stored calls. The same
  holds for the query monitor and its operations (an event of the cache, \<^verbatim>\<open>setLCPTime\<close>,
  \<^verbatim>\<open>recordINPEvent\<close>, \<^verbatim>\<open>initialize\<close>, \<^verbatim>\<open>disconnect\<close>).
\<close>

theorem C2_flags_never_reset:
  "(ApiClear \<notin> set ops \<longrightarrow> api_flags_kept (apiCalls m) (apiCalls (api_run m ops)))
   \<and> apiCalls (api_step m ApiClear) = []
   \<and> (QueryClear \<notin> set qops \<longrightarrow>
        query_flags_kept (queryMetrics q) (queryMetrics (query_run q qops)))
   \<and> queryMetrics (query_step q QueryClear) = []"
  by (simp add: api_run_kept query_run_kept)

lemma flagged_call_log: "map c_blockedLCP (apiCalls flagged_call) = [Some True]"
  by (simp add: flagged_call_def api_setLCPTime_calls recordAPICall_calls api_new_def call1_def
      api_checkLCPBlocking_def api_checkINPBlocking_def truthy_def
      call_data.extend_def api_call.fields_def)

lemma flagged_query_log: "map q_blockedLCP (queryMetrics flagged_query) = [Some True]"
  by (simp add: flagged_query_def handleQueryEvent_def updated_def query_of_def Let_def
      query_setLCPTime_def query_correlateWithLCP_def query_new_def
      query_checkLCPBlocking_def num_or_def)

theorem C2_flags_never_reset_witness:
  "truthy (c_blockedLCP (apiCalls flagged_call ! 0))
   \<and> truthy (c_blockedLCP (apiCalls (api_run flagged_call later_ops) ! 0))
   \<and> truthy (q_blockedLCP (queryMetrics flagged_query ! 0))
   \<and> truthy (q_blockedLCP (queryMetrics (query_run flagged_query later_query_ops) ! 0))"
proof -
  have a: "length (apiCalls flagged_call) = 1" "truthy (c_blockedLCP (apiCalls flagged_call ! 0))"
    using flagged_call_log by (auto simp: truthy_def map_eq_Cons_conv)
  have q: "length (queryMetrics flagged_query) = 1"
    "truthy (q_blockedLCP (queryMetrics flagged_query ! 0))"
    using flagged_query_log by (auto simp: truthy_def map_eq_Cons_conv)
  have "api_flags_kept (apiCalls flagged_call) (apiCalls (api_run flagged_call later_ops))"
    and "query_flags_kept (queryMetrics flagged_query)
           (queryMetrics (query_run flagged_query later_query_ops))"
    using C2_flags_never_reset [of later_ops flagged_call later_query_ops flagged_query]
    by (simp_all add: later_ops_def later_query_ops_def)
  then show ?thesis
    using a q by (simp add: api_flags_kept_def api_call_kept_def query_flags_kept_def
        query_metric_kept_def)
qed

section \<open>Overlap with a known instant\<close>

lemma inp_overlap_iff:
  "inp_overlap evs s e \<longleftrightarrow> (\<exists>t \<in> fst ` set evs. s < t \<and> t < e)"
  by (induction evs s e rule: inp_overlap.induct) auto

lemma api_checkINPBlocking_iff:
  "api_checkINPBlocking m s d \<longleftrightarrow> (\<exists>t \<in> fst ` set (api_inpEvents m). s < t \<and> t < s + d)"
  by (simp add: api_checkINPBlocking_def inp_overlap_iff)

lemma api_checkLCPBlocking_iff:
  "api_checkLCPBlocking m s d \<longleftrightarrow> (\<exists>t. api_lcpTime m = Some t \<and> s < t \<and> t < s + d)"
  by (simp add: api_checkLCPBlocking_def split: option.splits)

lemma api_complete_alt:
  "api_complete m \<longleftrightarrow>
     (\<forall>c \<in> set (apiCalls m).
        (api_checkLCPBlocking m (c_startTime c) (c_duration c) \<longrightarrow> c_blockedLCP c = Some True)
        \<and> (api_checkINPBlocking m (c_startTime c) (c_duration c) \<longrightarrow> c_blockedINP c = Some True))"
  unfolding api_complete_def api_checkINPBlocking_iff api_checkLCPBlocking_iff by blast

lemma api_complete_new: "api_complete api_new"
  by (simp add: api_complete_def api_new_def)

lemma api_complete_record: "api_complete m \<Longrightarrow> api_complete (recordAPICall cd m)"
  unfolding api_complete_alt
  by (auto simp: recordAPICall_calls call_data.extend_def api_call.fields_def
      api_check_cong [of "recordAPICall cd m" m])

lemma api_check_setLCPTime [simp]:
  "api_checkLCPBlocking (api_setLCPTime t m) s d \<longleftrightarrow> s < t \<and> t < s + d"
  "api_checkINPBlocking (api_setLCPTime t m) = api_checkINPBlocking m"
  by (simp_all add: api_checkLCPBlocking_iff api_check_cong(2) [of "api_setLCPTime t m" m])

lemma api_complete_setLCPTime: "api_complete m \<Longrightarrow> api_complete (api_setLCPTime t m)"
  unfolding api_complete_alt
  by (auto simp: api_setLCPTime_calls truthy_def)

lemma api_recordINPEvent_frame [simp]:
  "api_lcpTime (api_recordINPEvent t m) = api_lcpTime m"
  "fst ` set (api_inpEvents (api_recordINPEvent t m)) = insert t (fst ` set (api_inpEvents m))"
  "pendingRequests (api_recordINPEvent t m) = pendingRequests m"
  "api_initialized (api_recordINPEvent t m) = api_initialized m"
  by (simp_all add: api_recordINPEvent_def api_correlateWithINP_def dom_update)

lemma api_check_recordINPEvent [simp]:
  "api_checkLCPBlocking (api_recordINPEvent t m) = api_checkLCPBlocking m"
  "api_checkINPBlocking (api_recordINPEvent t m) s d \<longleftrightarrow>
     s < t \<and> t < s + d \<or> api_checkINPBlocking m s d"
  by (auto simp: api_checkINPBlocking_iff api_check_cong(1) [of "api_recordINPEvent t m" m])

lemma api_recordINPEvent_calls:
  "apiCalls (api_recordINPEvent t m) =
     map (\<lambda>call. if truthy (c_blockedINP call) then call
                 else call\<lparr>c_blockedINP :=
                        Some (c_startTime call < t \<and> t < c_startTime call + c_duration call
                              \<or> api_checkINPBlocking m (c_startTime call) (c_duration call))\<rparr>)
       (apiCalls m)"
  by (auto simp: api_recordINPEvent_def api_correlateWithINP_def api_checkINPBlocking_iff
      dom_update)

lemma api_complete_recordINPEvent: "api_complete m \<Longrightarrow> api_complete (api_recordINPEvent t m)"
  unfolding api_complete_alt
  by (auto simp: api_recordINPEvent_calls truthy_def)

lemma api_complete_pending:
  "api_complete (m\<lparr>pendingRequests := p\<rparr>) = api_complete m"
  by (simp add: api_complete_def)

lemma api_complete_step: "api_complete m \<Longrightarrow> api_complete (api_step m op)"
proof (cases op)
  case (FetchSettled rid u me st en status sz)
  assume "api_complete m"
  then show ?thesis
    using FetchSettled
    by (simp add: fetch_settled_def Let_def api_complete_pending api_complete_record)
qed (simp_all add: api_complete_record api_complete_setLCPTime api_complete_recordINPEvent
    fetch_issued_def api_complete_pending, simp add: api_complete_def)

lemma api_complete_run: "api_complete m \<Longrightarrow> api_complete (api_run m ops)"
  unfolding api_run_def by (induction ops arbitrary: m) (simp_all add: api_complete_step)


lemma fetch_frame [simp]:
  "api_lcpTime (fetch_issued rid u me st m) = api_lcpTime m"
  "api_inpEvents (fetch_issued rid u me st m) = api_inpEvents m"
  "apiCalls (fetch_issued rid u me st m) = apiCalls m"
  "api_lcpTime (fetch_settled rid u me st en status sz m) = api_lcpTime m"
  "api_inpEvents (fetch_settled rid u me st en status sz m) = api_inpEvents m"
  by (simp_all add: fetch_issued_def fetch_settled_def Let_def)

lemma api_step_inpEvents:
  "fst ` set (api_inpEvents (api_step m op)) =
     fst ` set (api_inpEvents m) \<union> (case op of RecordINPEvent u \<Rightarrow> {u} | _ \<Rightarrow> {})"
  by (cases op) auto

lemma api_run_inpEvents:
  "fst ` set (api_inpEvents (api_run m ops)) =
     fst ` set (api_inpEvents m) \<union> {u. RecordINPEvent u \<in> set ops}"
  unfolding api_run_def
proof (induction ops arbitrary: m)
  case Nil
  then show ?case by simp
next
  case (Cons op ops)
  show ?case
    unfolding foldl_Cons Cons.IH api_step_inpEvents
    by (cases op) auto
qed

lemma api_step_lcpTime:
  "api_lcpTime (api_step m op) = (case op of SetLCPTime t \<Rightarrow> Some t | _ \<Rightarrow> api_lcpTime m)"
  by (cases op) simp_all

lemma api_run_lcpTime_keep:
  "\<forall>u. SetLCPTime u \<notin> set rest \<Longrightarrow> api_lcpTime (api_run m rest) = api_lcpTime m"
  unfolding api_run_def
proof (induction rest arbitrary: m)
  case Nil
  then show ?case by simp
next
  case (Cons op rest)
  have "api_lcpTime (api_step m op) = api_lcpTime m"
    using Cons.prems by (cases op) auto
  moreover have "api_lcpTime (foldl api_step (api_step m op) rest) = api_lcpTime (api_step m op)"
    using Cons.prems by (intro Cons.IH) auto
  ultimately show ?case by simp
qed

lemma api_run_lcpTime:
  "\<forall>u. SetLCPTime u \<notin> set rest \<Longrightarrow>
     api_lcpTime (api_run m (ops @ SetLCPTime t # rest)) = Some t"
  using api_run_lcpTime_keep [of rest "api_step (api_run m ops) (SetLCPTime t)"]
  by (simp add: api_run_def)

text \<open>
  The API monitor, after any run of its operations from its initial state: a stored call
  whose interval strictly contains the stored paint instant is flagged for the paint, and
  one whose interval strictly contains an interaction instant reported in the run is
  flagged for the interaction. The stored paint instant is the last one reported, and the
  stored interaction instants are those reported.
\<close>

lemma api_overlap_flagged:
  assumes "c \<in> set (apiCalls (api_run api_new ops))"
  shows "(api_lcpTime (api_run api_new ops) = Some t
            \<and> c_startTime c < t \<and> t < c_startTime c + c_duration c
          \<longrightarrow> c_blockedLCP c = Some True)
         \<and> (RecordINPEvent u \<in> set ops \<and> c_startTime c < u \<and> u < c_startTime c + c_duration c
          \<longrightarrow> c_blockedINP c = Some True)"
proof -
  have "api_complete (api_run api_new ops)"
    by (rule api_complete_run) (rule api_complete_new)
  moreover have "RecordINPEvent u \<in> set ops
      \<Longrightarrow> u \<in> fst ` set (api_inpEvents (api_run api_new ops))"
    by (simp add: api_run_inpEvents)
  ultimately show ?thesis
    using assms unfolding api_complete_def by blast
qed

text \<open>
  C1, on the query monitor. With the paint instant 250 ms stored, the record of a query
  fetched from 500 ms to 550 ms is stored with data update 270 ms and duration 50 ms, so
  that the interval the correlation pass derives for it, from 220 ms to 270 ms, contains
  the instant; its paint flag is false, since the check at creation used the fetch start.
  And the record of a query fetched from 100 ms to 400 ms, stored with data update 150 ms
  and duration 300 ms before the instant 250 ms is reported, has its paint flag false
  after the report, since the pass checks the interval from -150 ms to 150 ms.
\<close>

theorem C1_query_overlap_not_flagged:
  "qm_lcpTime instant_then_query = Some 250
   \<and> map (\<lambda>r. (q_dataUpdatedAt r, q_fetchDuration r, q_blockedLCP r))
         (queryMetrics instant_then_query) = [(270, Some 50, Some False)]
   \<and> qm_lcpTime query_then_instant = Some 250
   \<and> map (\<lambda>r. (q_dataUpdatedAt r, q_fetchDuration r, q_blockedLCP r))
         (queryMetrics query_then_instant) = [(150, Some 300, Some False)]"
  by (simp add: instant_then_query_def query_then_instant_def query_run_def
      handleQueryEvent_def updated_def query_of_def Let_def
      query_setLCPTime_def query_correlateWithLCP_def query_new_def
      query_checkLCPBlocking_def query_checkINPBlocking_def num_or_def truthy_def
      truthy_num_def)

section \<open>Hydration end without a start\<close>

lemma correlationHook_hydration [simp]:
  "hydrationStartTime (correlationHook metric s) = hydrationStartTime s"
  "hydrationMetric (correlationHook metric s) = hydrationMetric s"
  by (simp_all add: correlationHook_def Let_def)

lemma correlationHooks_hydration [simp]:
  "hydrationStartTime ((correlationHook metric ^^ n) s) = hydrationStartTime s"
  "hydrationMetric ((correlationHook metric ^^ n) s) = hydrationMetric s"
  by (induction n) simp_all

lemma onWebVital_hydration [simp]:
  "hydrationStartTime (onWebVital metric s) = hydrationStartTime s"
  "hydrationMetric (onWebVital metric s) = hydrationMetric s"
  by (simp_all add: onWebVital_def)

lemma pm_initialize_hydration [simp]:
  "hydrationStartTime (pm_initialize a b s) = hydrationStartTime s"
  "hydrationMetric (pm_initialize a b s) = hydrationMetric s"
  by (simp_all add: pm_initialize_def)

lemma initializeQueryClient_hydration [simp]:
  "hydrationStartTime (initializeQueryClient qs s) = hydrationStartTime s"
  "hydrationMetric (initializeQueryClient qs s) = hydrationMetric s"
  by (simp_all add: initializeQueryClient_def)

lemma pm_clear_hydration [simp]:
  "hydrationStartTime (pm_clear s) = None"
  "hydrationMetric (pm_clear s) = None"
  by (simp_all add: pm_clear_def)

lemma markHydrationStart_hydration [simp]:
  "hydrationStartTime (markHydrationStart now s) = Some now"
  "hydrationMetric (markHydrationStart now s) = hydrationMetric s"
  by (simp_all add: markHydrationStart_def)

lemma markHydrationEnd_noop: "hydrationStartTime s = None \<Longrightarrow> markHydrationEnd now n s = s"
  by (simp add: markHydrationEnd_def)

lemma markHydrationEnd_start [simp]:
  "hydrationStartTime (markHydrationEnd now n s) = hydrationStartTime s"
  by (simp add: markHydrationEnd_def Let_def split: option.splits)


lemma pm_step_start:
  "hydrationStartTime (pm_step s op) =
     (case op of MarkHydrationStart now \<Rightarrow> Some now | Clear \<Rightarrow> None
      | _ \<Rightarrow> hydrationStartTime s)"
  by (cases op) simp_all

lemma pm_step_metric:
  "hydrationStartTime s = None \<Longrightarrow>
   hydrationMetric (pm_step s op) = (case op of Clear \<Rightarrow> None | _ \<Rightarrow> hydrationMetric s)"
  by (cases op) (simp_all add: markHydrationEnd_noop)

lemma pm_step_inv: "hydration_inv s \<Longrightarrow> hydration_inv (pm_step s op)"
  unfolding hydration_inv_def
  using pm_step_start [of s op] pm_step_metric [of s op]
  by (cases op) auto

lemma pm_run_snoc: "pm_run s (ops @ [op]) = pm_step (pm_run s ops) op"
  by (simp add: pm_run_def)

lemma pm_run_hydration_inv: "hydration_inv (pm_run (pm_new fw sid t0) ops)"
proof (induction ops rule: rev_induct)
  case Nil
  then show ?case by (simp add: pm_run_def pm_new_def hydration_inv_def)
next
  case (snoc op ops)
  then show ?case unfolding pm_run_snoc by (rule pm_step_inv)
qed

lemma pm_run_never_started:
  "\<forall>now. MarkHydrationStart now \<notin> set ops \<Longrightarrow>
   hydrationStartTime (pm_run (pm_new fw sid t0) ops) = None"
proof (induction ops rule: rev_induct)
  case Nil
  then show ?case by (simp add: pm_run_def pm_new_def)
next
  case (snoc op ops)
  then have ih: "hydrationStartTime (pm_run (pm_new fw sid t0) ops) = None"
    and op: "\<forall>now. op \<noteq> MarkHydrationStart now"
    by auto
  show ?case
    unfolding pm_run_snoc pm_step_start
    using ih op by (cases op) auto
qed

text \<open>
  C9. \<^verbatim>\<open>markHydrationEnd\<close> on a monitor that holds no hydration start returns the monitor
  unchanged. After any run from the constructor in which \<^verbatim>\<open>markHydrationStart\<close> is never
  called, \<^verbatim>\<open>markHydrationEnd\<close> changes nothing, the hydration record is absent and the
  \<^verbatim>\<open>hydration\<close> field of the next snapshot is null; the same holds after any run at the
  end of which no start is held (none was marked since the last \<^verbatim>\<open>clear\<close>). The model of
  \<^verbatim>\<open>markHydrationEnd\<close> is a total function: the source's path for a missing start is a
  warning and a return.
\<close>

theorem C9_hydration_end_without_start:
  "(hydrationStartTime s = None \<longrightarrow> markHydrationEnd now n s = s)
   \<and> ((\<forall>t. MarkHydrationStart t \<notin> set ops) \<longrightarrow>
        markHydrationEnd now n (pm_run (pm_new fw sid t0) ops) = pm_run (pm_new fw sid t0) ops
        \<and> hydrationMetric (markHydrationEnd now n (pm_run (pm_new fw sid t0) ops)) = None
        \<and> s_hydration (getPerformanceSession env
             (markHydrationEnd now n (pm_run (pm_new fw sid t0) ops))) = None)
   \<and> (hydrationStartTime (pm_run (pm_new fw sid t0) ops) = None \<longrightarrow>
        s_hydration (getPerformanceSession env
          (markHydrationEnd now n (pm_run (pm_new fw sid t0) ops))) = None)"
proof -
  have snap: "s_hydration (getPerformanceSession env x) = hydrationMetric x" for x
    by (simp add: getPerformanceSession_def Let_def)
  show ?thesis
    using pm_run_never_started [of ops fw sid t0] pm_run_hydration_inv [of fw sid t0 ops]
    by (auto simp: markHydrationEnd_noop snap hydration_inv_def)
qed

theorem C9_hydration_end_without_start_witness:
  "markHydrationEnd 10 (Some 3) (pm_new React ''session_1'' 0) = pm_new React ''session_1'' 0
   \<and> s_hydration (getPerformanceSession page0
         (markHydrationEnd 10 (Some 3) (pm_run (pm_new React ''session_1'' 0) no_start_ops)))
       = None"
proof -
  have "hydrationStartTime (pm_new React ''session_1'' 0) = None"
    by (simp add: pm_new_def)
  moreover have "\<forall>t. MarkHydrationStart t \<notin> set no_start_ops"
    by (simp add: no_start_ops_def)
  ultimately show ?thesis
    using C9_hydration_end_without_start
      [of "pm_new React ''session_1'' 0" 10 "Some 3" no_start_ops React "''session_1''" 0 page0]
    by blast
qed

section \<open>The snapshot after a clear\<close>

lemma empty_stats:
  "getQueryCacheStats now (query_clear q) = empty_query_stats"
  by (simp add: getQueryCacheStats_def query_clear_def empty_query_stats_def Let_def
      totalExecutions_def reduce_sum_def js_slice0_def js_sort_def)

lemma empty_collectors [simp]:
  "getMetrics (web_vitals_clear w) = []"
  "getResources (resource_clear r) = []"
  "getBlockingResources (resource_clear r) = []"
  "getTotalTransferSize (resource_clear r) = 0"
  "getAverageCompressionRatio (resource_clear r) = 0"
  "getFrames (loaf_clear l) = []"
  "getTotalBlockingTime (loaf_clear l) = 0"
  "getAPICalls (api_clear a) = []"
  "getAverageLatency (api_clear a) = 0"
  by (simp_all add: getMetrics_def web_vitals_clear_def getResources_def resource_clear_def
      getBlockingResources_def getTotalTransferSize_def getAverageCompressionRatio_def
      getFrames_def loaf_clear_def getTotalBlockingTime_def getAPICalls_def api_clear_def
      getAverageLatency_def reduce_sum_def)

lemma new_collectors [simp]:
  "getMetrics web_vitals_new = []"
  "getResources resource_new = []"
  "getBlockingResources resource_new = []"
  "getTotalTransferSize resource_new = 0"
  "getAverageCompressionRatio resource_new = 0"
  "getFrames loaf_new = []"
  "getTotalBlockingTime loaf_new = 0"
  "getAPICalls api_new = []"
  "getAverageLatency api_new = 0"
  by (simp_all add: getMetrics_def web_vitals_new_def getResources_def resource_new_def
      getBlockingResources_def getTotalTransferSize_def getAverageCompressionRatio_def
      getFrames_def loaf_new_def getTotalBlockingTime_def getAPICalls_def api_new_def
      getAverageLatency_def reduce_sum_def)

lemma snapshot_new:
  "getPerformanceSession env (pm_new fw sid t0) = empty_session env (pm_new fw sid t0)"
  by (simp add: getPerformanceSession_def pm_new_def empty_session_def Let_def)

lemma snapshot_clear_plain:
  "\<not> queryClientInitialized s \<Longrightarrow> getPerformanceSession env (pm_clear s) = empty_session env s"
  by (simp add: getPerformanceSession_def pm_clear_def empty_session_def Let_def)

lemma snapshot_clear_queries:
  "queryClientInitialized s \<Longrightarrow>
     getPerformanceSession env (pm_clear s) = empty_session_with_queries env s"
  by (simp add: getPerformanceSession_def pm_clear_def empty_session_with_queries_def
      empty_session_def Let_def empty_stats empty_query_stats_def)

lemma empty_session_identity:
  "empty_session env (pm_new (pm_framework s) (sessionId s) (sessionStartTime s))
     = empty_session env s"
  "empty_session_with_queries env (pm_new (pm_framework s) (sessionId s) (sessionStartTime s))
     = empty_session_with_queries env s"
  by (simp_all add: empty_session_with_queries_def empty_session_def pm_new_def)

text \<open>
  C8 (as amended). The snapshot of a freshly constructed monitor is the empty one: every
  log empty, every count and rate 0, no hydration record, no query statistics. After
  \<^verbatim>\<open>clear\<close> on a monitor whose query client has not been initialised the next snapshot
  is that empty snapshot, equal to the snapshot of a freshly constructed monitor with the
  same session id, start time and framework on the same page. After \<^verbatim>\<open>clear\<close> on a
  monitor whose query client has been initialised the next snapshot is the empty one with
  query statistics present, every count and rate in them 0 and both lists empty, and the
  three query fields of the summary 0.
\<close>

theorem C8_clear_resets_snapshot:
  "getPerformanceSession env (pm_new fw sid t0) = empty_session env (pm_new fw sid t0)
   \<and> (\<not> queryClientInitialized s \<longrightarrow>
        getPerformanceSession env (pm_clear s) = empty_session env s
        \<and> getPerformanceSession env (pm_clear s)
            = getPerformanceSession env
                (pm_new (pm_framework s) (sessionId s) (sessionStartTime s)))
   \<and> (queryClientInitialized s \<longrightarrow>
        getPerformanceSession env (pm_clear s) = empty_session_with_queries env s)"
  by (simp add: snapshot_new snapshot_clear_plain snapshot_clear_queries empty_session_identity)

text \<open>
  After \<^verbatim>\<open>initializeQueryClient\<close> and \<^verbatim>\<open>clear\<close> the snapshot differs from that of a freshly
  constructed monitor with the same identity: it has query statistics, the other has none.
\<close>

theorem C8_counterexample:
  "getPerformanceSession page0
     (pm_clear (initializeQueryClient [] (pm_new React ''session_1'' 0)))
   \<noteq> getPerformanceSession page0 (pm_new React ''session_1'' 0)"
proof
  assume eq: "getPerformanceSession page0
     (pm_clear (initializeQueryClient [] (pm_new React ''session_1'' 0)))
   = getPerformanceSession page0 (pm_new React ''session_1'' 0)"
  have "queryClientInitialized (initializeQueryClient [] (pm_new React ''session_1'' 0))"
    by (simp add: initializeQueryClient_def pm_new_def)
  then have "s_queryCache (getPerformanceSession page0
     (pm_clear (initializeQueryClient [] (pm_new React ''session_1'' 0)))) = Some empty_query_stats"
    by (simp add: snapshot_clear_queries empty_session_with_queries_def)
  moreover have "s_queryCache (getPerformanceSession page0 (pm_new React ''session_1'' 0)) = None"
    by (simp add: snapshot_new empty_session_def)
  ultimately show False using eq by simp
qed

lemma busy_monitor_flag: "\<not> queryClientInitialized busy_monitor"
  by (simp add: busy_monitor_def pm_run_def pm_new_def pm_initialize_def markHydrationStart_def
      markHydrationEnd_def Let_def)

lemma busy_query_monitor_flag: "queryClientInitialized busy_query_monitor"
  by (simp add: busy_query_monitor_def pm_run_def pm_new_def pm_initialize_def
      initializeQueryClient_def)

theorem C8_clear_resets_snapshot_witness:
  "getPerformanceSession page0 (pm_clear busy_monitor) = empty_session page0 busy_monitor
   \<and> getPerformanceSession page0 (pm_clear busy_query_monitor)
       = empty_session_with_queries page0 busy_query_monitor"
  using C8_clear_resets_snapshot [of page0 React "''session_1''" 0 busy_monitor]
    C8_clear_resets_snapshot [of page0 React "''session_1''" 0 busy_query_monitor]
    busy_monitor_flag busy_query_monitor_flag
  by blast

section \<open>Overlap with a known instant, on the query monitor\<close>

lemma query_checkINPBlocking_iff:
  "query_checkINPBlocking m s d \<longleftrightarrow> (\<exists>t \<in> fst ` set (qm_inpEvents m). s < t \<and> t < s + d)"
  by (simp add: query_checkINPBlocking_def inp_overlap_iff)

lemma query_checkLCPBlocking_iff:
  "query_checkLCPBlocking m s d \<longleftrightarrow> (\<exists>t. qm_lcpTime m = Some t \<and> s < t \<and> t < s + d)"
  by (simp add: query_checkLCPBlocking_def split: option.splits)

lemma query_complete_alt:
  "query_complete m \<longleftrightarrow>
     (\<forall>r \<in> set (queryMetrics m). \<forall>d. q_fetchDuration r = Some d \<longrightarrow>
        (query_checkLCPBlocking m (q_dataUpdatedAt r - d) d \<longrightarrow> q_blockedLCP r = Some True)
        \<and> (query_checkINPBlocking m (q_dataUpdatedAt r - d) d \<longrightarrow> q_blockedINP r = Some True))"
  unfolding query_complete_def query_checkINPBlocking_iff query_checkLCPBlocking_iff by blast

lemma query_complete_new: "query_complete query_new"
  by (simp add: query_complete_def query_new_def)

lemma handleQueryEvent_metrics:
  "queryMetrics (handleQueryEvent ev now1 now2 m) =
     queryMetrics m @
     (if ev_type ev \<noteq> ''updated'' then []
      else case ev_query ev of
        None \<Rightarrow> []
      | Some q \<Rightarrow>
          (let startTime = num_or (rq_fetchStartTime q) now1;
               fetchDuration = (if rq_dataUpdatedAt q > 0 then Some (now2 - startTime) else None)
           in [\<lparr>q_queryKey = serializeQueryKey (rq_queryKey q),
                 q_status = rq_status q,
                 q_fetchStatus = rq_fetchStatus q,
                 q_dataUpdatedAt = rq_dataUpdatedAt q,
                 q_errorUpdatedAt = rq_errorUpdatedAt q,
                 q_fetchDuration = fetchDuration,
                 q_cacheTime = num_or (rq_cacheTime q) 300000,
                 q_staleTime = num_or (rq_staleTime q) 0,
                 q_blockedLCP = Some (query_checkLCPBlocking m startTime (num_or fetchDuration 0)),
                 q_blockedINP = Some (query_checkINPBlocking m startTime (num_or fetchDuration 0))\<rparr>]))"
  by (simp add: handleQueryEvent_def Let_def query_checkLCPBlocking_def
      query_checkINPBlocking_def split: option.splits)

lemma handleQueryEvent_frame [simp]:
  "qm_lcpTime (handleQueryEvent ev now1 now2 m) = qm_lcpTime m"
  "qm_inpEvents (handleQueryEvent ev now1 now2 m) = qm_inpEvents m"
  "qm_initialized (handleQueryEvent ev now1 now2 m) = qm_initialized m"
  by (simp_all add: handleQueryEvent_def Let_def split: option.splits)

lemma query_complete_event:
  assumes "query_complete m" and "timely (HandleQueryEvent ev now1 now2)"
  shows "query_complete (handleQueryEvent ev now1 now2 m)"
  using assms unfolding query_complete_alt
  by (auto simp: handleQueryEvent_metrics Let_def
      query_check_cong [of "handleQueryEvent ev now1 now2 m" m]
      split: option.splits if_splits)

lemma query_setLCPTime_frame [simp]:
  "qm_lcpTime (query_setLCPTime t m) = Some t"
  "qm_inpEvents (query_setLCPTime t m) = qm_inpEvents m"
  "qm_initialized (query_setLCPTime t m) = qm_initialized m"
  by (simp_all add: query_setLCPTime_def query_correlateWithLCP_def)

lemma query_check_setLCPTime [simp]:
  "query_checkLCPBlocking (query_setLCPTime t m) s d \<longleftrightarrow> s < t \<and> t < s + d"
  "query_checkINPBlocking (query_setLCPTime t m) = query_checkINPBlocking m"
  by (simp_all add: query_checkLCPBlocking_iff query_check_cong(2) [of "query_setLCPTime t m" m])

lemma query_setLCPTime_metrics:
  "queryMetrics (query_setLCPTime t m) =
     map (\<lambda>metric.
            if truthy_num (q_fetchDuration metric) \<and> \<not> truthy (q_blockedLCP metric)
            then metric\<lparr>q_blockedLCP :=
                   Some (q_dataUpdatedAt metric - the (q_fetchDuration metric) < t
                         \<and> t < q_dataUpdatedAt metric - the (q_fetchDuration metric)
                                 + the (q_fetchDuration metric))\<rparr>
            else metric)
       (queryMetrics m)"
  by (auto simp: query_setLCPTime_def query_correlateWithLCP_def query_checkLCPBlocking_def Let_def)

lemma query_complete_setLCPTime: "query_complete m \<Longrightarrow> query_complete (query_setLCPTime t m)"
  unfolding query_complete_alt
  by (auto simp: query_setLCPTime_metrics truthy_def truthy_num_def)

lemma query_recordINPEvent_frame [simp]:
  "qm_lcpTime (query_recordINPEvent t m) = qm_lcpTime m"
  "fst ` set (qm_inpEvents (query_recordINPEvent t m)) = insert t (fst ` set (qm_inpEvents m))"
  "qm_initialized (query_recordINPEvent t m) = qm_initialized m"
  by (simp_all add: query_recordINPEvent_def query_correlateWithINP_def dom_update)

lemma query_check_recordINPEvent [simp]:
  "query_checkLCPBlocking (query_recordINPEvent t m) = query_checkLCPBlocking m"
  "query_checkINPBlocking (query_recordINPEvent t m) s d \<longleftrightarrow>
     s < t \<and> t < s + d \<or> query_checkINPBlocking m s d"
  by (auto simp: query_checkINPBlocking_iff query_check_cong(1) [of "query_recordINPEvent t m" m])

lemma query_recordINPEvent_metrics:
  "queryMetrics (query_recordINPEvent t m) =
     map (\<lambda>metric.
            if truthy_num (q_fetchDuration metric) \<and> \<not> truthy (q_blockedINP metric)
            then metric\<lparr>q_blockedINP :=
                   Some (q_dataUpdatedAt metric - the (q_fetchDuration metric) < t
                         \<and> t < q_dataUpdatedAt metric - the (q_fetchDuration metric)
                                 + the (q_fetchDuration metric)
                         \<or> query_checkINPBlocking m
                              (q_dataUpdatedAt metric - the (q_fetchDuration metric))
                              (the (q_fetchDuration metric)))\<rparr>
            else metric)
       (queryMetrics m)"
  by (auto simp: query_recordINPEvent_def query_correlateWithINP_def query_checkINPBlocking_iff
      dom_update)

lemma query_complete_recordINPEvent:
  "query_complete m \<Longrightarrow> query_complete (query_recordINPEvent t m)"
  unfolding query_complete_alt
  by (auto simp: query_recordINPEvent_metrics truthy_def truthy_num_def)

lemma query_complete_initialize:
  "query_complete m \<Longrightarrow> query_complete (query_initialize qs m)"
  unfolding query_complete_def
  by (auto simp: query_initialize_def snapshotCurrentQueries_def)

lemma query_complete_step:
  "query_complete m \<Longrightarrow> timely op \<Longrightarrow> query_complete (query_step m op)"
proof (cases op)
  case (HandleQueryEvent ev now1 now2)
  assume "query_complete m" "timely op"
  then show ?thesis using HandleQueryEvent by (simp add: query_complete_event)
next
  case QueryDisconnect
  assume "query_complete m"
  then show ?thesis using QueryDisconnect by (simp add: query_complete_def query_disconnect_def)
next
  case QueryClear
  then show ?thesis by (simp add: query_complete_def)
qed (simp_all add: query_complete_setLCPTime query_complete_recordINPEvent
    query_complete_initialize)

lemma query_complete_run:
  "query_complete m \<Longrightarrow> \<forall>op \<in> set ops. timely op \<Longrightarrow> query_complete (query_run m ops)"
  unfolding query_run_def by (induction ops arbitrary: m) (simp_all add: query_complete_step)

lemma query_step_inpEvents:
  "fst ` set (qm_inpEvents (query_step m op)) =
     fst ` set (qm_inpEvents m) \<union> (case op of QueryRecordINPEvent u \<Rightarrow> {u} | _ \<Rightarrow> {})"
  by (cases op) (auto simp: query_initialize_def snapshotCurrentQueries_def query_disconnect_def)

lemma query_run_inpEvents:
  "fst ` set (qm_inpEvents (query_run m ops)) =
     fst ` set (qm_inpEvents m) \<union> {u. QueryRecordINPEvent u \<in> set ops}"
  unfolding query_run_def
proof (induction ops arbitrary: m)
  case Nil
  then show ?case by simp
next
  case (Cons op ops)
  show ?case
    unfolding foldl_Cons Cons.IH query_step_inpEvents
    by (cases op) auto
qed

text \<open>
  The query monitor, after a run of timely operations from its initial state: a stored
  record with a fetch duration whose derived interval strictly contains the stored paint
  instant, or an interaction instant reported in the run, is flagged for it. For the
  record of a timely event the derived interval begins at the fetch start the event was
  checked with.
\<close>

lemma query_overlap_flagged:
  assumes "\<forall>op \<in> set ops. timely op"
    and "r \<in> set (queryMetrics (query_run query_new ops))"
    and "q_fetchDuration r = Some d"
  shows "(qm_lcpTime (query_run query_new ops) = Some t
            \<and> q_dataUpdatedAt r - d < t \<and> t < q_dataUpdatedAt r - d + d
          \<longrightarrow> q_blockedLCP r = Some True)
         \<and> (QueryRecordINPEvent u \<in> set ops
            \<and> q_dataUpdatedAt r - d < u \<and> u < q_dataUpdatedAt r - d + d
          \<longrightarrow> q_blockedINP r = Some True)"
proof -
  have "query_complete (query_run query_new ops)"
    using assms(1) by (intro query_complete_run query_complete_new)
  moreover have "QueryRecordINPEvent u \<in> set ops
      \<Longrightarrow> u \<in> fst ` set (qm_inpEvents (query_run query_new ops))"
    by (simp add: query_run_inpEvents)
  ultimately show ?thesis
    using assms(2,3) unfolding query_complete_def by blast
qed

lemma timely_interval:
  assumes "timely (HandleQueryEvent (updated q) now1 now2)" and "rq_dataUpdatedAt q > 0"
  shows "map (\<lambda>r. (q_dataUpdatedAt r - the (q_fetchDuration r), q_dataUpdatedAt r))
           (queryMetrics (handleQueryEvent (updated q) now1 now2 query_new))
         = [(num_or (rq_fetchStartTime q) now1, now2)]"
  using assms by (simp add: handleQueryEvent_metrics updated_def query_new_def Let_def)

section \<open>Before the first paint instant\<close>

lemma api_no_instant_step:
  assumes "api_lcpTime m = None \<longrightarrow> (\<forall>c \<in> set (apiCalls m). c_blockedLCP c = Some False)"
  shows "api_lcpTime (api_step m op) = None
         \<longrightarrow> (\<forall>c \<in> set (apiCalls (api_step m op)). c_blockedLCP c = Some False)"
  using assms
  by (cases op)
    (auto simp: recordAPICall_calls api_recordINPEvent_calls fetch_settled_def Let_def
      api_checkLCPBlocking_def call_data.extend_def api_call.fields_def)

lemma api_no_instant_run:
  "api_lcpTime (api_run api_new ops) = None
   \<Longrightarrow> \<forall>c \<in> set (apiCalls (api_run api_new ops)). c_blockedLCP c = Some False"
proof (induction ops rule: rev_induct)
  case Nil
  then show ?case by (simp add: api_run_def api_new_def)
next
  case (snoc op ops)
  have run: "api_run api_new (ops @ [op]) = api_step (api_run api_new ops) op"
    by (simp add: api_run_def)
  have "api_lcpTime (api_run api_new ops) = None
        \<longrightarrow> (\<forall>c \<in> set (apiCalls (api_run api_new ops)). c_blockedLCP c = Some False)"
    using snoc.IH by blast
  from api_no_instant_step [OF this] snoc.prems show ?case
    unfolding run by blast
qed

section \<open>Blocking the largest paint\<close>

text \<open>
  C3. With the paint instant \<open>t\<close> stored, the overlap check of a call holds iff the call
  starts strictly before \<open>t\<close> and its start plus its duration is strictly after \<open>t\<close>.
  Recording \<open>t\<close> keeps the log's length, and afterwards a stored call is flagged iff it
  was flagged before or its interval contains \<open>t\<close> in that strict sense; when \<open>t\<close> is the
  first paint instant of a run from the initial state, a stored call is flagged
  afterwards iff its interval contains \<open>t\<close> in that sense. The call from
  100 ms lasting 300 ms is not flagged when recorded, and is once the instant 250 ms is
  recorded; the call from 500 ms lasting 50 ms is not flagged for that instant, whether it
  is recorded after or before the instant.
\<close>

theorem C3_lcp_blocking:
  "(api_checkLCPBlocking (m\<lparr>api_lcpTime := Some t\<rparr>) st d \<longleftrightarrow> st < t \<and> t < st + d)
   \<and> length (apiCalls (api_setLCPTime t m)) = length (apiCalls m)
   \<and> (\<forall>i < length (apiCalls m).
         truthy (c_blockedLCP (apiCalls (api_setLCPTime t m) ! i)) \<longleftrightarrow>
           truthy (c_blockedLCP (apiCalls m ! i))
           \<or> (c_startTime (apiCalls m ! i) < t
               \<and> t < c_startTime (apiCalls m ! i) + c_duration (apiCalls m ! i)))
   \<and> (api_lcpTime (api_run api_new ops) = None \<longrightarrow>
        (\<forall>i < length (apiCalls (api_run api_new ops)).
           truthy (c_blockedLCP (apiCalls (api_setLCPTime t (api_run api_new ops)) ! i)) \<longleftrightarrow>
             c_startTime (apiCalls (api_run api_new ops) ! i) < t
             \<and> t < c_startTime (apiCalls (api_run api_new ops) ! i)
                     + c_duration (apiCalls (api_run api_new ops) ! i)))
   \<and> map c_blockedLCP (apiCalls (recordAPICall call1 api_new)) = [Some False]
   \<and> map c_blockedLCP (apiCalls (api_setLCPTime 250 (recordAPICall call1 api_new))) = [Some True]
   \<and> map c_blockedLCP
         (apiCalls (recordAPICall call2 (api_setLCPTime 250 (recordAPICall call1 api_new))))
       = [Some True, Some False]
   \<and> map c_blockedLCP
         (apiCalls (api_setLCPTime 250 (recordAPICall call2 (recordAPICall call1 api_new))))
       = [Some True, Some False]"
proof (intro conjI)
  show "api_checkLCPBlocking (m\<lparr>api_lcpTime := Some t\<rparr>) st d \<longleftrightarrow> st < t \<and> t < st + d"
    by (simp add: api_checkLCPBlocking_def Let_def)
  show "length (apiCalls (api_setLCPTime t m)) = length (apiCalls m)"
    by (simp add: api_setLCPTime_calls)
  show "\<forall>i < length (apiCalls m).
         truthy (c_blockedLCP (apiCalls (api_setLCPTime t m) ! i)) \<longleftrightarrow>
           truthy (c_blockedLCP (apiCalls m ! i))
           \<or> (c_startTime (apiCalls m ! i) < t
               \<and> t < c_startTime (apiCalls m ! i) + c_duration (apiCalls m ! i))"
    by (simp add: api_setLCPTime_calls truthy_def)
  show "api_lcpTime (api_run api_new ops) = None \<longrightarrow>
        (\<forall>i < length (apiCalls (api_run api_new ops)).
           truthy (c_blockedLCP (apiCalls (api_setLCPTime t (api_run api_new ops)) ! i)) \<longleftrightarrow>
             c_startTime (apiCalls (api_run api_new ops) ! i) < t
             \<and> t < c_startTime (apiCalls (api_run api_new ops) ! i)
                     + c_duration (apiCalls (api_run api_new ops) ! i))"
    using api_no_instant_run [of ops]
    by (auto simp: api_setLCPTime_calls truthy_def)
qed (simp_all add: api_setLCPTime_calls recordAPICall_def api_new_def call1_def call2_def
    api_checkLCPBlocking_def api_checkINPBlocking_def Let_def truthy_def
    call_data.extend_def api_call.fields_def)

theorem C3_lcp_blocking_witness:
  "\<not> truthy (c_blockedLCP (apiCalls (recordAPICall call1 api_new) ! 0))
   \<and> truthy (c_blockedLCP (apiCalls (api_setLCPTime 250 (recordAPICall call1 api_new)) ! 0))
   \<and> truthy (c_blockedLCP
        (apiCalls (api_setLCPTime 250 (api_run api_new [RecordAPICall call1])) ! 0))"
proof -
  let ?m = "recordAPICall call1 api_new"
  let ?r = "api_run api_new [RecordAPICall call1]"
  have run: "?r = ?m"
    by (simp add: api_run_def)
  have log: "apiCalls ?m = [call_data.extend call1 (api_call.fields (Some False) (Some False) None)]"
    by (simp add: recordAPICall_calls api_new_def api_checkLCPBlocking_def
        api_checkINPBlocking_def)
  have len: "0 < length (apiCalls ?m)"
    and old: "\<not> truthy (c_blockedLCP (apiCalls ?m ! 0))"
    and iv: "c_startTime (apiCalls ?m ! 0) = 100" "c_duration (apiCalls ?m ! 0) = 300"
    unfolding log
    by (simp_all add: call1_def call_data.extend_def api_call.fields_def truthy_def)
  have none: "api_lcpTime ?r = None"
    unfolding run by (simp add: api_new_def)
  have "\<forall>i < length (apiCalls ?m).
         truthy (c_blockedLCP (apiCalls (api_setLCPTime 250 ?m) ! i)) \<longleftrightarrow>
           truthy (c_blockedLCP (apiCalls ?m ! i))
           \<or> (c_startTime (apiCalls ?m ! i) < 250
               \<and> 250 < c_startTime (apiCalls ?m ! i) + c_duration (apiCalls ?m ! i))"
    using C3_lcp_blocking [where m = ?m and t = 250] by blast
  then have first: "truthy (c_blockedLCP (apiCalls (api_setLCPTime 250 ?m) ! 0))"
    using len iv by simp
  have "api_lcpTime ?r = None \<longrightarrow>
        (\<forall>i < length (apiCalls ?r).
           truthy (c_blockedLCP (apiCalls (api_setLCPTime 250 ?r) ! i)) \<longleftrightarrow>
             c_startTime (apiCalls ?r ! i) < 250
             \<and> 250 < c_startTime (apiCalls ?r ! i) + c_duration (apiCalls ?r ! i))"
    using C3_lcp_blocking [where t = 250 and ops = "[RecordAPICall call1]"] by blast
  then have "truthy (c_blockedLCP (apiCalls (api_setLCPTime 250 ?r) ! 0))"
    using none len iv unfolding run by simp
  with old first show ?thesis by simp
qed


end
